theory Spec2Isabelle
  imports Complex_Main "HOL-Library.Sublist" "HOL-Library.AList"
begin

section \<open>Python values\<close>

text \<open>
  The scoring operon takes \<open>product_data: Dict[str, Any]\<close> and inspects it dynamically
  (\<open>.get\<close>, iteration, \<open>len\<close>, \<open>str\<close>, arithmetic). The values a product dictionary is
  built from are modelled by \<open>pyval\<close>: \<open>None\<close>, booleans, integers, floats, strings, lists
  and dictionaries with string keys (an association list in insertion order).

  Numbers are exact: a Python float is a real number here, so rounding error, infinities
  and NaN are outside the model. A float inside product data carries its printed form
  (what \<open>repr\<close> gives for it), since the shortest-digits printing of doubles is not
  recomputed. Strings are ASCII: \<open>lower\<close> and \<open>repr\<close> leave bytes from 128 on unchanged.
\<close>

datatype pyval =
    PNone
  | PBool bool
  | PInt int
  | PFloat real string
  | PStr string
  | PList "pyval list"
  | PDict "(string \<times> pyval) list"

datatype py_exception =
    PermissionError string
  | KeyError string
  | AttributeError
  | TypeError
  | EOFError

text \<open>The class of a raised exception, which is what an \<open>except\<close> clause dispatches on.\<close>

datatype exception_class =
  PermissionError_class | KeyError_class | AttributeError_class | TypeError_class | EOFError_class

fun class_of :: "py_exception \<Rightarrow> exception_class" where
  "class_of (PermissionError msg) = PermissionError_class"
| "class_of (KeyError k) = KeyError_class"
| "class_of AttributeError = AttributeError_class"
| "class_of TypeError = TypeError_class"
| "class_of EOFError = EOFError_class"

subsection \<open>\<open>str.lower\<close>, \<open>repr\<close> and \<open>str\<close>\<close>

definition lower_char :: "char \<Rightarrow> char" where
  "lower_char c =
     (let n = (of_char c :: nat) in if 65 \<le> n \<and> n \<le> 90 then char_of (n + 32) else c)"

definition py_lower :: "string \<Rightarrow> string" where
  "py_lower s = map lower_char s"

definition hex_digit :: "nat \<Rightarrow> char" where
  "hex_digit d = (if d < 10 then char_of (48 + d) else char_of (87 + d))"

fun nat_digits :: "nat \<Rightarrow> string" where
  "nat_digits n =
     (if n < 10 then [char_of (48 + n)]
      else nat_digits (n div 10) @ [char_of (48 + n mod 10)])"

definition int_repr :: "int \<Rightarrow> string" where
  "int_repr i = (if i < 0 then CHR ''-'' # nat_digits (nat (- i)) else nat_digits (nat i))"

text \<open>
  \<open>repr\<close> of a string: double quotes when the text has a single quote and no double
  quote, single quotes otherwise; the quote in use and the backslash are escaped, as are
  tab, newline, carriage return and the other control characters (\<open>\xNN\<close>).
\<close>

definition escape_char :: "char \<Rightarrow> char \<Rightarrow> string" where
  "escape_char q c =
     (let n = (of_char c :: nat) in
      if c = q \<or> c = CHR 0x5C then [CHR 0x5C, c]
      else if c = CHR 0x09 then [CHR 0x5C, CHR ''t'']
      else if c = CHR 0x0A then [CHR 0x5C, CHR ''n'']
      else if c = CHR 0x0D then [CHR 0x5C, CHR ''r'']
      else if n < 32 \<or> n = 127
        then [CHR 0x5C, CHR ''x'', hex_digit (n div 16), hex_digit (n mod 16)]
      else [c])"

definition str_repr :: "string \<Rightarrow> string" where
  "str_repr s =
     (let q = (if CHR 0x27 \<in> set s \<and> CHR 0x22 \<notin> set s then CHR 0x22 else CHR 0x27)
      in q # concat (map (escape_char q) s) @ [q])"

fun join :: "string \<Rightarrow> string list \<Rightarrow> string" where
  "join sep [] = []"
| "join sep [x] = x"
| "join sep (x # y # ys) = x @ sep @ join sep (y # ys)"

fun py_repr :: "pyval \<Rightarrow> string" where
  "py_repr PNone = ''None''"
| "py_repr (PBool b) = (if b then ''True'' else ''False'')"
| "py_repr (PInt i) = int_repr i"
| "py_repr (PFloat r shown) = shown"
| "py_repr (PStr s) = str_repr s"
| "py_repr (PList xs) = ''['' @ join '', '' (map py_repr xs) @ '']''"
| "py_repr (PDict kvs) =
     ''{'' @ join '', '' (map (\<lambda>kv. str_repr (fst kv) @ '': '' @ py_repr (snd kv)) kvs) @ ''}''"

definition py_str :: "pyval \<Rightarrow> string" where
  "py_str v = (case v of PStr s \<Rightarrow> s | _ \<Rightarrow> py_repr v)"

subsection \<open>Dynamic operations\<close>

text \<open>\<open>for c in v\<close>: a list gives its elements, a string its characters, a dictionary its keys.\<close>

fun py_iter :: "pyval \<Rightarrow> py_exception + pyval list" where
  "py_iter (PList xs) = Inr xs"
| "py_iter (PStr s) = Inr (map (\<lambda>c. PStr [c]) s)"
| "py_iter (PDict kvs) = Inr (map (\<lambda>kv. PStr (fst kv)) kvs)"
| "py_iter v = Inl TypeError"

fun py_len :: "pyval \<Rightarrow> py_exception + nat" where
  "py_len (PList xs) = Inr (length xs)"
| "py_len (PStr s) = Inr (length s)"
| "py_len (PDict kvs) = Inr (length kvs)"
| "py_len v = Inl TypeError"

text \<open>\<open>c.lower()\<close>: only a string has the method.\<close>

fun lower_of :: "pyval \<Rightarrow> py_exception + string" where
  "lower_of (PStr s) = Inr (py_lower s)"
| "lower_of v = Inl AttributeError"

text \<open>\<open>[c.lower() for c in xs]\<close>, stopping at the first element that raises.\<close>

fun lower_each :: "pyval list \<Rightarrow> py_exception + string list" where
  "lower_each [] = Inr []"
| "lower_each (c # cs) =
     (case lower_of c of
        Inl e \<Rightarrow> Inl e
      | Inr l \<Rightarrow> (case lower_each cs of Inl e \<Rightarrow> Inl e | Inr ls \<Rightarrow> Inr (l # ls)))"

definition lowered :: "pyval \<Rightarrow> py_exception + string list" where
  "lowered v = (case py_iter v of Inl e \<Rightarrow> Inl e | Inr xs \<Rightarrow> lower_each xs)"

text \<open>\<open>d.get(key, default)\<close> on a dictionary (a value of another type has no \<open>get\<close>).\<close>

definition dict_get :: "(string \<times> pyval) list \<Rightarrow> string \<Rightarrow> pyval \<Rightarrow> pyval" where
  "dict_get d k dflt = (case map_of d k of None \<Rightarrow> dflt | Some v \<Rightarrow> v)"

fun as_dict :: "pyval \<Rightarrow> py_exception + (string \<times> pyval) list" where
  "as_dict (PDict kvs) = Inr kvs"
| "as_dict v = Inl AttributeError"

text \<open>Truth value of an object, as \<open>if x:\<close> tests it.\<close>

fun truthy :: "pyval \<Rightarrow> bool" where
  "truthy PNone = False"
| "truthy (PBool b) = b"
| "truthy (PInt i) = (i \<noteq> 0)"
| "truthy (PFloat r shown) = (r \<noteq> 0)"
| "truthy (PStr s) = (s \<noteq> [])"
| "truthy (PList xs) = (xs \<noteq> [])"
| "truthy (PDict kvs) = (kvs \<noteq> [])"

text \<open>
  The numeric value of an operand of \<open>+\<close> with a float or of \<open>min(_, 10.0)\<close>; \<open>bool\<close> is a
  subclass of \<open>int\<close>. Every other type raises \<open>TypeError\<close> in both operations.
\<close>

fun as_number :: "pyval \<Rightarrow> py_exception + real" where
  "as_number (PInt i) = Inr (of_int i)"
| "as_number (PBool b) = Inr (if b then 1 else 0)"
| "as_number (PFloat r shown) = Inr r"
| "as_number v = Inl TypeError"

text \<open>
  \<open>round(x, 1)\<close>: to one decimal, a tie going to the even neighbour.
\<close>

definition round_half_even :: "real \<Rightarrow> int" where
  "round_half_even y =
     (let f = \<lfloor>y\<rfloor>; d = y - of_int f in
      if d < 1 / 2 then f else if 1 / 2 < d then f + 1 else if even f then f else f + 1)"

definition py_round1 :: "real \<Rightarrow> real" where
  "py_round1 x = of_int (round_half_even (x * 10)) / 10"

section \<open>The scoring operon (\<open>hushh_mcp/operons/score_ethical_factors.py\<close>)\<close>

type_synonym product_data = "(string \<times> pyval) list"
type_synonym user_values = "(string \<times> int) list"
type_synonym weights = "(string \<times> real) list"

record score_result =
  overall_score :: real
  component_scores :: "(string \<times> real) list"
  strengths :: "string list"
  concerns :: "string list"
  certifications_found :: pyval
  user_alignment :: string
  scoring_methodology :: string

definition default_weights :: weights where
  "default_weights =
     [(''environmental'', 25 / 100), (''labor'', 25 / 100), (''supply_chain'', 20 / 100),
      (''transparency'', 15 / 100), (''certifications'', 15 / 100)]"

text \<open>
  Lines 41 to 52. \<open>certs_lower\<close> is \<open>[c.lower() for c in certifications]\<close>; the two texts
  are \<open>str(environmental_impact).lower()\<close> and \<open>str(product_data).lower()\<close>.
\<close>

definition environmental_score :: "string list \<Rightarrow> string \<Rightarrow> string \<Rightarrow> real" where
  "environmental_score certs_lower impact_text product_text =
     (let env_score = 5;
          env_score = (if ''organic'' \<in> set certs_lower then env_score + 15 / 10 else env_score);
          env_score = (if sublist ''carbon neutral'' impact_text then env_score + 1 else env_score);
          env_score = (if sublist ''renewable energy'' impact_text then env_score + 1 else env_score);
          env_score = (if sublist ''recyclable'' product_text then env_score + 5 / 10 else env_score)
      in min env_score 10)"

text \<open>Lines 54 to 65; the text is \<open>str(labor_practices).lower()\<close>.\<close>

definition labor_score :: "string list \<Rightarrow> string \<Rightarrow> real" where
  "labor_score certs_lower labor_text =
     (let labor_score = 5;
          labor_score = (if ''fair trade'' \<in> set certs_lower then labor_score + 2 else labor_score);
          labor_score = (if sublist ''living wage'' labor_text then labor_score + 15 / 10 else labor_score);
          labor_score = (if sublist ''worker rights'' labor_text then labor_score + 1 else labor_score);
          labor_score = (if ''sa8000'' \<in> set certs_lower then labor_score + 1 else labor_score)
      in min labor_score 10)"

text \<open>
  Lines 67 to 77. The baseline 5.0 is overwritten by the \<open>transparency_score\<close> entry
  (default 5). \<open>supply_chain_info.get\<close> needs a dictionary and \<open>origin.lower()\<close> a string
  (\<open>AttributeError\<close> otherwise); \<open>len\<close> of the tier list, the additions and \<open>min\<close> raise
  \<open>TypeError\<close> on a value of the wrong type.
\<close>

definition supply_chain_score :: "pyval \<Rightarrow> pyval \<Rightarrow> py_exception + real" where
  "supply_chain_score supply_chain_info origin =
     (case as_dict supply_chain_info of
        Inl e \<Rightarrow> Inl e
      | Inr info \<Rightarrow>
          (let transparency_level = dict_get info ''transparency_score'' (PInt 5) in
           case lower_of origin of
             Inl e \<Rightarrow> Inl e
           | Inr origin_lower \<Rightarrow>
               (case as_number transparency_level of
                  Inl e \<Rightarrow> Inl e
                | Inr supply_score \<Rightarrow>
                    (let supply_score =
                           (if sublist ''local'' origin_lower \<or> sublist ''domestic'' origin_lower
                            then supply_score + 15 / 10 else supply_score)
                     in case py_len (dict_get info ''tier_visibility'' (PList [])) of
                          Inl e \<Rightarrow> Inl e
                        | Inr tiers \<Rightarrow>
                            (let supply_score = (if 2 < tiers then supply_score + 1 else supply_score)
                             in Inr (min supply_score 10))))))"

text \<open>Lines 79 to 88; \<open>n_certs\<close> is \<open>len(certifications)\<close>.\<close>

definition transparency_score :: "(string \<times> pyval) list \<Rightarrow> string list \<Rightarrow> nat \<Rightarrow> real" where
  "transparency_score info certs_lower n_certs =
     (let trans_score = 5;
          trans_score = (if truthy (dict_get info ''public_reporting'' (PBool False))
                         then trans_score + 15 / 10 else trans_score);
          trans_score = (if ''b-corp'' \<in> set certs_lower then trans_score + 2 else trans_score);
          trans_score = (if 2 < n_certs then trans_score + 1 else trans_score)
      in min trans_score 10)"

text \<open>Lines 90 to 92.\<close>

definition certification_score :: "nat \<Rightarrow> real" where
  "certification_score n_certs = min (of_nat n_certs * (15 / 10)) 10"

text \<open>
  Lines 31 to 92: the \<open>scores\<close> dictionary, in insertion order. The first statement that
  can raise is the comprehension of line 43, then the supply-chain block; \<open>len\<close> of the
  certifications cannot fail once they have been iterated.
\<close>

definition component_scores_of :: "product_data \<Rightarrow> py_exception + (string \<times> real) list" where
  "component_scores_of product_data =
     (let certifications = dict_get product_data ''certifications'' (PList []);
          origin = dict_get product_data ''origin'' (PStr ''unknown'');
          labor_practices = dict_get product_data ''labor_practices'' (PDict []);
          environmental_impact = dict_get product_data ''environmental_impact'' (PDict []);
          supply_chain_info = dict_get product_data ''supply_chain'' (PDict [])
      in case lowered certifications of
           Inl e \<Rightarrow> Inl e
         | Inr certs_lower \<Rightarrow>
             (case supply_chain_score supply_chain_info origin of
                Inl e \<Rightarrow> Inl e
              | Inr supply \<Rightarrow>
                  (case as_dict supply_chain_info of
                     Inl e \<Rightarrow> Inl e
                   | Inr info \<Rightarrow>
                       (case py_len certifications of
                          Inl e \<Rightarrow> Inl e
                        | Inr n_certs \<Rightarrow>
                            Inr [(''environmental'',
                                    environmental_score certs_lower
                                      (py_lower (py_str environmental_impact))
                                      (py_lower (py_str (PDict product_data)))),
                                 (''labor'',
                                    labor_score certs_lower (py_lower (py_str labor_practices))),
                                 (''supply_chain'', supply),
                                 (''transparency'', transparency_score info certs_lower n_certs),
                                 (''certifications'', certification_score n_certs)]))))"

text \<open>
  Line 95: \<open>sum(scores[factor] * weights[factor] for factor in weights.keys())\<close>. The
  weights dictionary is walked in its order; \<open>scores[factor]\<close> raises \<open>KeyError\<close> for a
  name that is not a key of \<open>scores\<close>.
\<close>

fun weighted_sum :: "(string \<times> real) list \<Rightarrow> weights \<Rightarrow> real \<Rightarrow> py_exception + real" where
  "weighted_sum scores [] acc = Inr acc"
| "weighted_sum scores ((factor, w) # rest) acc =
     (case map_of scores factor of
        None \<Rightarrow> Inl (KeyError factor)
      | Some s \<Rightarrow> weighted_sum scores rest (acc + s * w))"

text \<open>Lines 97 to 104; \<open>user_values.get(key, 3)\<close>.\<close>

definition importance :: "user_values \<Rightarrow> string \<Rightarrow> int" where
  "importance user_values k = (case map_of user_values k of None \<Rightarrow> 3 | Some v \<Rightarrow> v)"

definition score_at :: "(string \<times> real) list \<Rightarrow> string \<Rightarrow> real" where
  "score_at scores k = (case map_of scores k of None \<Rightarrow> 0 | Some s \<Rightarrow> s)"

definition user_weight_multiplier :: "user_values \<Rightarrow> (string \<times> real) list \<Rightarrow> real" where
  "user_weight_multiplier user_values scores =
     (let m = 1;
          m = (if 4 \<le> importance user_values ''environmental_importance''
               then m + (1 / 10) * (score_at scores ''environmental'' / 10) else m);
          m = (if 4 \<le> importance user_values ''labor_practices_importance''
               then m + (1 / 10) * (score_at scores ''labor'' / 10) else m);
          m = (if 4 \<le> importance user_values ''transparency_importance''
               then m + (1 / 10) * (score_at scores ''transparency'' / 10) else m)
      in m)"

text \<open>Lines 108 to 116: \<open>factor.replace('_', ' ')\<close> and the two explanation lists.\<close>

definition spaced :: "string \<Rightarrow> string" where
  "spaced factor = map (\<lambda>c. if c = CHR ''_'' then CHR '' '' else c) factor"

fun explain :: "(string \<times> real) list \<Rightarrow> string list \<times> string list" where
  "explain [] = ([], [])"
| "explain ((factor, score) # rest) =
     (let (strengths, concerns) = explain rest in
      if 75 / 10 \<le> score then ((''Strong '' @ spaced factor @ '' practices'') # strengths, concerns)
      else if score \<le> 4 then (strengths, (''Limited '' @ spaced factor @ '' information'') # concerns)
      else (strengths, concerns))"

definition score_ethical_factors ::
  "product_data \<Rightarrow> user_values \<Rightarrow> weights option \<Rightarrow> py_exception + score_result" where
  "score_ethical_factors product_data user_values weights =
     (let weights = (case weights of None \<Rightarrow> default_weights | Some w \<Rightarrow> w) in
      case component_scores_of product_data of
        Inl e \<Rightarrow> Inl e
      | Inr scores \<Rightarrow>
          (case weighted_sum scores weights 0 of
             Inl e \<Rightarrow> Inl e
           | Inr overall \<Rightarrow>
               (let multiplier = user_weight_multiplier user_values scores;
                    final_score = min (overall * multiplier) 10;
                    (strengths, concerns) = explain scores
                in Inr \<lparr>overall_score = py_round1 final_score,
                        component_scores = map (\<lambda>kv. (fst kv, py_round1 (snd kv))) scores,
                        strengths = strengths,
                        concerns = concerns,
                        certifications_found = dict_get product_data ''certifications'' (PList []),
                        user_alignment = (if 105 / 100 < multiplier then ''high'' else ''moderate''),
                        scoring_methodology = ''weighted_multi_factor''\<rparr>)))"

section \<open>The values questionnaire\<close>

text \<open>
  Standard input is the list of lines still to be read; \<open>input()\<close> takes the first one and
  raises \<open>EOFError\<close> when none is left. \<open>int(response)\<close> is a parameter, \<open>py_int\<close>, with
  \<open>None\<close> for \<open>ValueError\<close>. What \<open>print\<close> writes is not modelled.
\<close>

definition questions :: "(string \<times> string) list" where
  "questions =
     [(''Environmental sustainability (climate impact, waste reduction)'', ''environmental_importance''),
      (''Fair labor practices (worker rights, fair wages)'', ''labor_practices_importance''),
      (''Local sourcing vs global supply chains'', ''local_sourcing_preference''),
      (''Animal welfare considerations'', ''animal_welfare_importance''),
      (''Supply chain transparency'', ''transparency_importance'')]"

text \<open>
  The \<open>while True\<close> loop of one question (agent lines 69 to 79, operon lines 31 to 41): it
  ends at the first response that parses to a number from 1 to 5.
\<close>

fun ask :: "(string \<Rightarrow> int option) \<Rightarrow> string list \<Rightarrow> py_exception + (int \<times> string list)" where
  "ask py_int [] = Inl EOFError"
| "ask py_int (response # rest) =
     (case py_int response of
        None \<Rightarrow> ask py_int rest
      | Some score \<Rightarrow> if 1 \<le> score \<and> score \<le> 5 then Inr (score, rest) else ask py_int rest)"

text \<open>The \<open>for question, key in questions\<close> loop around it, filling the \<open>values\<close> dictionary.\<close>

fun ask_each ::
  "(string \<Rightarrow> int option) \<Rightarrow> (string \<times> string) list \<Rightarrow> (string \<times> int) list \<Rightarrow> string list
     \<Rightarrow> py_exception + ((string \<times> int) list \<times> string list)" where
  "ask_each py_int [] values stdin = Inr (values, stdin)"
| "ask_each py_int ((question, key) # qs) values stdin =
     (case ask py_int stdin of
        Inl e \<Rightarrow> Inl e
      | Inr (score, stdin') \<Rightarrow> ask_each py_int qs (AList.update key score values) stdin')"

subsection \<open>The operon (\<open>hushh_mcp/operons/assess_ethical_values.py\<close>)\<close>

record assessment =
  values_dict :: "(string \<times> int) list"
  summary :: string
  total_score :: int
  assessment_type :: string

text \<open>\<open>question.split(' (')[0]\<close>: the text before the first occurrence of the separator.\<close>

fun split_head :: "string \<Rightarrow> string \<Rightarrow> string" where
  "split_head sep [] = []"
| "split_head sep (c # cs) = (if prefix sep (c # cs) then [] else c # split_head sep cs)"

text \<open>Lines 47 to 51; \<open>values[key]\<close> raises \<open>KeyError\<close> on a missing key.\<close>

fun priorities_of :: "(string \<times> string) list \<Rightarrow> (string \<times> int) list \<Rightarrow> py_exception + string list" where
  "priorities_of [] values = Inr []"
| "priorities_of ((question, key) # qs) values =
     (case map_of values key of
        None \<Rightarrow> Inl (KeyError key)
      | Some v \<Rightarrow>
          (case priorities_of qs values of
             Inl e \<Rightarrow> Inl e
           | Inr ps \<Rightarrow> Inr (if 4 \<le> v then py_lower (split_head '' ('' question) # ps else ps)))"

definition assess_ethical_values ::
  "(string \<Rightarrow> int option) \<Rightarrow> bool \<Rightarrow> string list \<Rightarrow> py_exception + (assessment \<times> string list)" where
  "assess_ethical_values py_int interactive stdin =
     (case (if interactive then ask_each py_int questions [] stdin
            else Inr (fold (\<lambda>q values. AList.update (snd q) 3 values) questions [], stdin)) of
        Inl e \<Rightarrow> Inl e
      | Inr (values, stdin') \<Rightarrow>
          (case priorities_of questions values of
             Inl e \<Rightarrow> Inl e
           | Inr priorities \<Rightarrow>
               Inr (\<lparr>values_dict = values,
                     summary = (if priorities \<noteq> [] then ''Top priorities: '' @ join '', '' priorities
                                else ''Balanced approach''),
                     total_score = sum_list (map snd values),
                     assessment_type = (if interactive then ''interactive'' else ''default'')\<rparr>,
                    stdin')))"

section \<open>The agent (\<open>hushh_mcp/agents/ethical_consumption_agent/index.py\<close>)\<close>

text \<open>
  Modelled from the spec: the \<open>ConsentScope\<close> enumeration of \<open>hushh_mcp/constants.py\<close> and
  the token object of \<open>hushh_mcp/consent/token.py\<close>, neither of which is among the sources.
  The scope has the five members the agent names; of the token the agent reads \<open>user_id\<close>.
\<close>

datatype ConsentScope =
    CUSTOM_ETHICAL_VALUES
  | VAULT_READ_EMAIL
  | VAULT_READ_FINANCE
  | AGENT_SHOPPING_PURCHASE
  | CUSTOM_SUPPLY_CHAIN

record consent_token =
  user_id :: string
  agent_id :: string
  scope :: ConsentScope

text \<open>
  What is sealed: \<open>json.dumps\<close> of the captured values, of the canned purchase analysis, or
  of the canned trace of a product URL. The canned datasets themselves are constants of
  the source and are not reproduced.
\<close>

datatype payload =
    ValuesPayload "(string \<times> int) list"
  | AnalysisPayload
  | TracePayload string

text \<open>
  The two collaborators are parameters: \<open>validate_token(token_str, expected_scope)\<close> gives
  \<open>(valid, reason, token)\<close>, and \<open>encrypt_data\<close> stands for
  \<open>encrypt_data(json.dumps(_), VAULT_ENCRYPTION_KEY)\<close>.
\<close>

record 'b collaborators =
  validate_token :: "string \<Rightarrow> ConsentScope \<Rightarrow> bool \<times> string \<times> consent_token option"
  encrypt_data :: "payload \<Rightarrow> 'b"

datatype access = values_access | email_access | finance_access | shopping_access | supply_chain

fun required_scopes :: "access \<Rightarrow> ConsentScope" where
  "required_scopes values_access = CUSTOM_ETHICAL_VALUES"
| "required_scopes email_access = VAULT_READ_EMAIL"
| "required_scopes finance_access = VAULT_READ_FINANCE"
| "required_scopes shopping_access = AGENT_SHOPPING_PURCHASE"
| "required_scopes supply_chain = CUSTOM_SUPPLY_CHAIN"

record EthicalValues =
  environmental_importance :: int
  labor_practices_importance :: int
  local_sourcing_preference :: int
  animal_welfare_importance :: int
  transparency_importance :: int

text \<open>
  \<open>EthicalValues(**values)\<close>: every field must be given and no other keyword may be
  (\<open>TypeError\<close>).
\<close>

definition make_EthicalValues :: "(string \<times> int) list \<Rightarrow> py_exception + EthicalValues" where
  "make_EthicalValues values =
     (if list_all (\<lambda>k. k \<in> set (map snd questions)) (map fst values) then
        (case (map_of values ''environmental_importance'',
               map_of values ''labor_practices_importance'',
               map_of values ''local_sourcing_preference'',
               map_of values ''animal_welfare_importance'',
               map_of values ''transparency_importance'') of
           (Some e, Some l, Some s, Some a, Some t) \<Rightarrow>
             Inr \<lparr>environmental_importance = e, labor_practices_importance = l,
                  local_sourcing_preference = s, animal_welfare_importance = a,
                  transparency_importance = t\<rparr>
         | _ \<Rightarrow> Inl TypeError)
      else Inl TypeError)"

text \<open>Lines 290 to 308.\<close>

definition generate_values_summary :: "EthicalValues \<Rightarrow> string" where
  "generate_values_summary v =
     (let priorities = [];
          priorities = (if 4 \<le> environmental_importance v
                        then priorities @ [''environmental sustainability''] else priorities);
          priorities = (if 4 \<le> labor_practices_importance v
                        then priorities @ [''fair labor practices''] else priorities);
          priorities = (if 4 \<le> local_sourcing_preference v
                        then priorities @ [''local sourcing''] else priorities);
          priorities = (if 4 \<le> animal_welfare_importance v
                        then priorities @ [''animal welfare''] else priorities);
          priorities = (if 4 \<le> transparency_importance v
                        then priorities @ [''supply chain transparency''] else priorities)
      in if priorities \<noteq> [] then ''Your top priorities: '' @ join '', '' priorities
         else ''Balanced approach across all ethical factors'')"

text \<open>
  The dictionaries the five operations return, by operation: every one has
  \<open>"status": "success"\<close>; the fields kept are the ones that depend on the call.
\<close>

datatype 'b response =
    ValuesResponse string 'b string
  | AnalysisResponse 'b string
  | SearchResponse string "int option"
  | TraceResponse string 'b
  | ReportResponse string

fun status :: "'b response \<Rightarrow> string" where
  "status (ValuesResponse message sealed summary_text) = ''success''"
| "status (AnalysisResponse sealed period) = ''success''"
| "status (SearchResponse query budget) = ''success''"
| "status (TraceResponse product_url sealed) = ''success''"
| "status (ReportResponse report_user_id) = ''success''"

text \<open>
  Lines 44 to 95. \<open>token.user_id\<close> on \<open>None\<close> (a validator that says valid and gives no
  token) raises \<open>AttributeError\<close>.
\<close>

definition agent_assess_ethical_values ::
  "'b collaborators \<Rightarrow> (string \<Rightarrow> int option) \<Rightarrow> string \<Rightarrow> string \<Rightarrow> string list
     \<Rightarrow> py_exception + ('b response \<times> string list)" where
  "agent_assess_ethical_values env py_int user token_str stdin =
     (case validate_token env token_str (required_scopes values_access) of
        (valid, reason, token) \<Rightarrow>
          if \<not> valid then Inl (PermissionError (''Consent validation failed: '' @ reason))
          else (case token of
                  None \<Rightarrow> Inl AttributeError
                | Some t \<Rightarrow>
                    if user_id t \<noteq> user
                    then Inl (PermissionError ''Token user ID does not match provided user'')
                    else (case ask_each py_int questions [] stdin of
                            Inl e \<Rightarrow> Inl e
                          | Inr (values, stdin') \<Rightarrow>
                              (case make_EthicalValues values of
                                 Inl e \<Rightarrow> Inl e
                               | Inr ethical_values \<Rightarrow>
                                   Inr (ValuesResponse ''Ethical values assessment completed''
                                          (encrypt_data env (ValuesPayload values))
                                          (generate_values_summary ethical_values),
                                        stdin')))))"

text \<open>Lines 97 to 142.\<close>

definition analyze_purchase_history ::
  "'b collaborators \<Rightarrow> string \<Rightarrow> string \<Rightarrow> string \<Rightarrow> py_exception + 'b response" where
  "analyze_purchase_history env user token_str period =
     (case validate_token env token_str (required_scopes email_access) of
        (valid, reason, token) \<Rightarrow>
          if \<not> valid then Inl (PermissionError (''Consent validation failed: '' @ reason))
          else (case token of
                  None \<Rightarrow> Inl AttributeError
                | Some t \<Rightarrow>
                    if user_id t \<noteq> user
                    then Inl (PermissionError ''Token user ID does not match provided user'')
                    else Inr (AnalysisResponse (encrypt_data env AnalysisPayload) period)))"

text \<open>Lines 144 to 199.\<close>

definition search_ethical_products ::
  "'b collaborators \<Rightarrow> string \<Rightarrow> string \<Rightarrow> string \<Rightarrow> int option \<Rightarrow> py_exception + 'b response" where
  "search_ethical_products env user token_str query budget =
     (case validate_token env token_str (required_scopes shopping_access) of
        (valid, reason, token) \<Rightarrow>
          if \<not> valid then Inl (PermissionError (''Consent validation failed: '' @ reason))
          else (case token of
                  None \<Rightarrow> Inl AttributeError
                | Some t \<Rightarrow>
                    if user_id t \<noteq> user
                    then Inl (PermissionError ''Token user ID does not match provided user'')
                    else Inr (SearchResponse query budget)))"

text \<open>Lines 201 to 248.\<close>

definition trace_supply_chain ::
  "'b collaborators \<Rightarrow> string \<Rightarrow> string \<Rightarrow> string \<Rightarrow> py_exception + 'b response" where
  "trace_supply_chain env user token_str product_url =
     (case validate_token env token_str (required_scopes supply_chain) of
        (valid, reason, token) \<Rightarrow>
          if \<not> valid then Inl (PermissionError (''Consent validation failed: '' @ reason))
          else (case token of
                  None \<Rightarrow> Inl AttributeError
                | Some t \<Rightarrow>
                    if user_id t \<noteq> user
                    then Inl (PermissionError ''Token user ID does not match provided user'')
                    else Inr (TraceResponse product_url
                                (encrypt_data env (TracePayload product_url)))))"

text \<open>
  Lines 250 to 288. After the validity test the body goes straight to the report: the
  decoded token is not read, and the report is labelled with the caller's \<open>user_id\<close>.
\<close>

definition generate_report ::
  "'b collaborators \<Rightarrow> string \<Rightarrow> string \<Rightarrow> py_exception + 'b response" where
  "generate_report env user token_str =
     (case validate_token env token_str (required_scopes email_access) of
        (valid, reason, token) \<Rightarrow>
          if \<not> valid then Inl (PermissionError (''Consent validation failed: '' @ reason))
          else Inr (ReportResponse user))"

text \<open>
  Modelled from the spec: a token collaborator to run the agent against (section 6 of the
  specification; \<open>hushh_mcp/consent/token.py\<close> is not among the sources). Tokens are
  looked up by their text among the issued ones; a revoked token is reported with the
  reason \<open>Token has been revoked\<close>, and a scope other than the expected one is a reason of
  its own.
\<close>

definition table_validate ::
  "(string \<times> consent_token) list \<Rightarrow> string list \<Rightarrow> string \<Rightarrow> ConsentScope
     \<Rightarrow> bool \<times> string \<times> consent_token option" where
  "table_validate issued revoked token_str expected_scope =
     (case map_of issued token_str of
        None \<Rightarrow> (False, ''Invalid token'', None)
      | Some t \<Rightarrow>
          if token_str \<in> set revoked then (False, ''Token has been revoked'', None)
          else if scope t \<noteq> expected_scope then (False, ''Scope mismatch'', None)
          else (True, ''Token valid'', Some t))"

definition sample_collaborators :: "payload collaborators" where
  "sample_collaborators =
     \<lparr>validate_token =
        table_validate
          [(''token-u1-email'', \<lparr>user_id = ''u1'', agent_id = ''ethical_consumption_agent'',
                                 scope = VAULT_READ_EMAIL\<rparr>),
           (''token-u1-values'', \<lparr>user_id = ''u1'', agent_id = ''ethical_consumption_agent'',
                                  scope = CUSTOM_ETHICAL_VALUES\<rparr>),
           (''token-u1-old'', \<lparr>user_id = ''u1'', agent_id = ''ethical_consumption_agent'',
                               scope = VAULT_READ_EMAIL\<rparr>)]
          [''token-u1-old''],
      encrypt_data = (\<lambda>p. p)\<rparr>"

text \<open>A reading of \<open>int\<close> for the sample runs: a single digit.\<close>

definition digit_int :: "string \<Rightarrow> int option" where
  "digit_int s =
     (case s of
        [c] \<Rightarrow> (let n = (of_char c :: nat) in
                if 48 \<le> n \<and> n \<le> 57 then Some (int n - 48) else None)
      | _ \<Rightarrow> None)"

text \<open>A response the questionnaire takes: it parses, and the number is from 1 to 5.\<close>

definition accepted :: "(string \<Rightarrow> int option) \<Rightarrow> string \<Rightarrow> bool" where
  "accepted py_int response =
     (case py_int response of None \<Rightarrow> False | Some score \<Rightarrow> 1 \<le> score \<and> score \<le> 5)"

text \<open>The keys of the \<open>scores\<close> dictionary, in the order the source inserts them.\<close>

definition factor_names :: "string list" where
  "factor_names = [''environmental'', ''labor'', ''supply_chain'', ''transparency'', ''certifications'']"


text \<open>
  The two products and value profiles of \<open>tests/test_ethical_agent.py\<close> (scenarios A and B
  of the specification), and what the operon returns for them.
\<close>

definition scenario_a_product :: product_data where
  "scenario_a_product =
     [(''certifications'', PList [PStr ''Fair Trade'', PStr ''B-Corp'', PStr ''Organic'']),
      (''origin'', PStr ''Local, USA''),
      (''labor_practices'', PDict [(''living_wage'', PBool True), (''worker_rights'', PBool True)]),
      (''environmental_impact'',
         PDict [(''carbon_neutral'', PBool True), (''renewable_energy'', PBool True)]),
      (''supply_chain'',
         PDict [(''transparency_score'', PInt 8), (''public_reporting'', PBool True),
                (''tier_visibility'', PList [PStr ''tier1'', PStr ''tier2'', PStr ''tier3''])])]"

definition scenario_a_values :: user_values where
  "scenario_a_values =
     [(''environmental_importance'', 5), (''labor_practices_importance'', 4),
      (''transparency_importance'', 5)]"

definition scenario_b_product :: product_data where
  "scenario_b_product =
     [(''certifications'', PList []),
      (''origin'', PStr ''Unknown''),
      (''labor_practices'', PDict []),
      (''environmental_impact'', PDict []),
      (''supply_chain'', PDict [(''transparency_score'', PInt 2)])]"

definition scenario_b_values :: user_values where
  "scenario_b_values =
     [(''environmental_importance'', 5), (''labor_practices_importance'', 5),
      (''transparency_importance'', 5)]"

definition scenario_a_result :: score_result where
  "scenario_a_result =
     \<lparr>overall_score = 92 / 10,
      component_scores =
        [(''environmental'', 65 / 10), (''labor'', 7), (''supply_chain'', 10),
         (''transparency'', 95 / 10), (''certifications'', 45 / 10)],
      strengths = [''Strong supply chain practices'', ''Strong transparency practices''],
      concerns = [],
      certifications_found = PList [PStr ''Fair Trade'', PStr ''B-Corp'', PStr ''Organic''],
      user_alignment = ''high'',
      scoring_methodology = ''weighted_multi_factor''\<rparr>"

definition scenario_b_result :: score_result where
  "scenario_b_result =
     \<lparr>overall_score = 42 / 10,
      component_scores =
        [(''environmental'', 5), (''labor'', 5), (''supply_chain'', 2),
         (''transparency'', 5), (''certifications'', 0)],
      strengths = [],
      concerns = [''Limited supply chain information'', ''Limited certifications information''],
      certifications_found = PList [],
      user_alignment = ''high'',
      scoring_methodology = ''weighted_multi_factor''\<rparr>"

text \<open>
  The texts the operon searches for inside a stringified dictionary. Such a text is plain
  when it is not empty, does not begin with a space and has none of the characters that
  \<open>repr\<close> puts between the parts of a list or dictionary; \<open>mentions n v\<close> is
  \<open>n in repr(v).lower()\<close>.
\<close>

definition plain :: "string \<Rightarrow> bool" where
  "plain n = (n \<noteq> [] \<and> hd n \<noteq> CHR '' '' \<and> list_all (\<lambda>c. c \<notin> set '',:[]{}'') n)"

definition mentions :: "string \<Rightarrow> pyval \<Rightarrow> bool" where
  "mentions n v = sublist n (py_lower (py_repr v))"

text \<open>
  Positive signals added to a product: \<open>certifications.append(c)\<close> (creating the list when
  the key is missing), \<open>supply_chain["public_reporting"] = True\<close>, and a new entry \<open>flag\<close>
  in one of the descriptive dictionaries. \<open>scores_le\<close> compares two component
  dictionaries key by key.
\<close>

definition add_certification :: "string \<Rightarrow> product_data \<Rightarrow> product_data" where
  "add_certification c product_data =
     (case dict_get product_data ''certifications'' (PList []) of
        PList cs \<Rightarrow> AList.update ''certifications'' (PList (cs @ [PStr c])) product_data
      | other \<Rightarrow> product_data)"

definition set_public_reporting :: "product_data \<Rightarrow> product_data" where
  "set_public_reporting product_data =
     (case dict_get product_data ''supply_chain'' (PDict []) of
        PDict info \<Rightarrow>
          AList.update ''supply_chain''
            (PDict (AList.update ''public_reporting'' (PBool True) info)) product_data
      | other \<Rightarrow> product_data)"

definition scores_le :: "(string \<times> real) list \<Rightarrow> (string \<times> real) list \<Rightarrow> bool" where
  "scores_le before after = list_all2 (\<lambda>p q. fst p = fst q \<and> snd p \<le> snd q) before after"

definition add_flag :: "string \<Rightarrow> string \<Rightarrow> pyval \<Rightarrow> product_data \<Rightarrow> product_data" where
  "add_flag part flag v product_data =
     (case dict_get product_data part (PDict []) of
        PDict d \<Rightarrow> AList.update part (PDict (AList.update flag v d)) product_data
      | other \<Rightarrow> product_data)"

section \<open>Properties\<close>

subsection \<open>Rounding\<close>

lemma round_half_even_of_int: "round_half_even (of_int n) = n"
  by (simp add: round_half_even_def)

lemma round_half_even_range: "\<lfloor>y\<rfloor> \<le> round_half_even y \<and> round_half_even y \<le> \<lfloor>y\<rfloor> + 1"
  by (simp add: round_half_even_def Let_def)

lemma round_half_even_mono:
  assumes "y \<le> y'"
  shows "round_half_even y \<le> round_half_even y'"
proof (cases "\<lfloor>y\<rfloor> = \<lfloor>y'\<rfloor>")
  case True
  then have "y - of_int \<lfloor>y\<rfloor> \<le> y' - of_int \<lfloor>y'\<rfloor>"
    using assms by simp
  with True show ?thesis
    by (auto simp: round_half_even_def Let_def)
next
  case False
  then have "\<lfloor>y\<rfloor> < \<lfloor>y'\<rfloor>"
    using assms floor_mono [of y y'] by linarith
  then have "round_half_even y \<le> \<lfloor>y'\<rfloor>"
    using round_half_even_range [of y] by linarith
  then show ?thesis
    using round_half_even_range [of y'] by linarith
qed

lemma py_round1_mono: "x \<le> y \<Longrightarrow> py_round1 x \<le> py_round1 y"
  by (simp add: py_round1_def round_half_even_mono divide_right_mono)

lemma py_round1_tenths: "py_round1 (of_int k / 10) = of_int k / 10"
  by (simp add: py_round1_def round_half_even_of_int)



lemma py_round1_7: "py_round1 7 = 7"
  using py_round1_tenths [of 70] by simp



subsection \<open>The questionnaire\<close>

lemma snd_update_subset: "snd ` set (AList.update k v al) \<subseteq> insert v (snd ` set al)"
  by (induction al) auto

lemma ask_range: "ask py_int stdin = Inr (score, rest) \<Longrightarrow> 1 \<le> score \<and> score \<le> 5"
  by (induction stdin) (auto split: option.splits if_splits)

lemma ask_rejects: "\<not> accepted py_int response \<Longrightarrow> ask py_int (response # rest) = ask py_int rest"
  by (auto simp: accepted_def split: option.splits)

lemma ask_each_range:
  "ask_each py_int qs vals stdin = Inr (values, rest) \<Longrightarrow>
   \<forall>v \<in> snd ` set vals. 1 \<le> v \<and> v \<le> 5 \<Longrightarrow>
   \<forall>v \<in> snd ` set values. 1 \<le> v \<and> v \<le> 5"
proof (induction qs arbitrary: vals stdin)
  case Nil
  then show ?case by simp
next
  case (Cons q qs)
  obtain question key where q: "q = (question, key)" by (cases q)
  from Cons.prems(1) q obtain score stdin' where
    a: "ask py_int stdin = Inr (score, stdin')" and
    r: "ask_each py_int qs (AList.update key score vals) stdin' = Inr (values, rest)"
    by (auto split: sum.splits)
  have "\<forall>v \<in> snd ` set (AList.update key score vals). 1 \<le> v \<and> v \<le> 5"
    using snd_update_subset [of key score vals] ask_range [OF a] Cons.prems(2) by blast
  with Cons.IH [OF r] show ?case by simp
qed

lemma ask_each_keys:
  "ask_each py_int qs vals stdin = Inr (values, rest) \<Longrightarrow>
   fst ` set values = fst ` set vals \<union> snd ` set qs"
proof (induction qs arbitrary: vals stdin)
  case Nil
  then show ?case by simp
next
  case (Cons q qs)
  obtain question key where q: "q = (question, key)" by (cases q)
  from Cons.prems(1) q obtain score stdin' where
    r: "ask_each py_int qs (AList.update key score vals) stdin' = Inr (values, rest)"
    by (auto split: sum.splits)
  from Cons.IH [OF r] q show ?case
    by (simp add: dom_update)
qed

lemma ask_succeeds:
  "filter (accepted py_int) stdin \<noteq> [] \<Longrightarrow>
   \<exists>score rest. ask py_int stdin = Inr (score, rest) \<and>
     length (filter (accepted py_int) rest) = length (filter (accepted py_int) stdin) - 1"
  by (induction stdin) (auto simp: accepted_def split: option.splits)

lemma ask_each_succeeds:
  "length qs \<le> length (filter (accepted py_int) stdin) \<Longrightarrow>
   \<exists>values rest. ask_each py_int qs vals stdin = Inr (values, rest)"
proof (induction qs arbitrary: vals stdin)
  case Nil
  then show ?case by simp
next
  case (Cons q qs)
  obtain question key where q: "q = (question, key)" by (cases q)
  from Cons.prems have "filter (accepted py_int) stdin \<noteq> []" by auto
  from ask_succeeds [OF this] obtain score rest where
    a: "ask py_int stdin = Inr (score, rest)" and
    l: "length (filter (accepted py_int) rest) = length (filter (accepted py_int) stdin) - 1"
    by blast
  from l Cons.prems have "length qs \<le> length (filter (accepted py_int) rest)" by simp
  from Cons.IH [OF this, of "AList.update key score vals"] a q show ?case by simp
qed

text \<open>
  C9. Every preference value the questionnaire captures is an integer from 1 to 5: a
  response that does not parse or is out of range is dropped and the question asked
  again, never clamped. This holds for one question, for the values the agent seals, and
  for the values the operon returns, in interactive mode and in default mode.
\<close>

theorem captured_values_in_range:
  "(ask py_int stdin = Inr (score, rest) \<longrightarrow> 1 \<le> score \<and> score \<le> 5)
   \<and> (\<not> accepted py_int response \<longrightarrow> ask py_int (response # stdin) = ask py_int stdin)
   \<and> (agent_assess_ethical_values env py_int user token_str stdin = Inr (result, rest) \<longrightarrow>
        (\<exists>values message summary_text.
           result = ValuesResponse message (encrypt_data env (ValuesPayload values)) summary_text
           \<and> (\<forall>v \<in> snd ` set values. 1 \<le> v \<and> v \<le> 5)))
   \<and> (assess_ethical_values py_int interactive stdin = Inr (a, rest) \<longrightarrow>
        (\<forall>v \<in> snd ` set (values_dict a). 1 \<le> v \<and> v \<le> 5))"
proof -
  have one: "ask py_int stdin = Inr (score, rest) \<longrightarrow> 1 \<le> score \<and> score \<le> 5"
    using ask_range by blast
  have again: "\<not> accepted py_int response \<longrightarrow> ask py_int (response # stdin) = ask py_int stdin"
    using ask_rejects by blast
  have agent: "\<exists>values message summary_text.
           result = ValuesResponse message (encrypt_data env (ValuesPayload values)) summary_text
           \<and> (\<forall>v \<in> snd ` set values. 1 \<le> v \<and> v \<le> 5)"
    if r: "agent_assess_ethical_values env py_int user token_str stdin = Inr (result, rest)"
  proof -
    from r obtain vs where
      a: "ask_each py_int questions [] stdin = Inr (vs, rest)" and
      res: "\<exists>message summary_text.
              result = ValuesResponse message (encrypt_data env (ValuesPayload vs)) summary_text"
      by (auto simp: agent_assess_ethical_values_def
               split: prod.splits if_splits option.splits sum.splits)
    from ask_each_range [OF a] have "\<forall>v \<in> snd ` set vs. 1 \<le> v \<and> v \<le> 5" by simp
    with res show ?thesis by blast
  qed
  have operon: "\<forall>v \<in> snd ` set (values_dict a). 1 \<le> v \<and> v \<le> 5"
    if r: "assess_ethical_values py_int interactive stdin = Inr (a, rest)"
  proof (cases interactive)
    case True
    with r obtain vs where
      a: "ask_each py_int questions [] stdin = Inr (vs, rest)" and v: "values_dict a = vs"
      by (auto simp: assess_ethical_values_def split: prod.splits sum.splits)
    from ask_each_range [OF a] v show ?thesis by simp
  next
    case False
    with r have "values_dict a = fold (\<lambda>q values. AList.update (snd q) 3 values) questions []"
      by (auto simp: assess_ethical_values_def split: prod.splits sum.splits)
    then show ?thesis by (simp add: questions_def)
  qed
  from one again agent operon show ?thesis by blast
qed

theorem captured_values_in_range_witness:
  "ask digit_int [''9'', ''x'', ''4'', ''5'', ''0'', ''3'', ''4'', ''5'', ''2''] =
     Inr (4, [''5'', ''0'', ''3'', ''4'', ''5'', ''2''])
   \<and> \<not> accepted digit_int ''9''
   \<and> ask digit_int (''9'' # [''x'', ''4'', ''5'']) = ask digit_int [''x'', ''4'', ''5'']
   \<and> agent_assess_ethical_values sample_collaborators digit_int ''u1'' ''token-u1-values''
        [''9'', ''x'', ''4'', ''5'', ''0'', ''3'', ''4'', ''5'', ''2''] =
       Inr (ValuesResponse ''Ethical values assessment completed''
              (ValuesPayload
                 [(''environmental_importance'', 4), (''labor_practices_importance'', 5),
                  (''local_sourcing_preference'', 3), (''animal_welfare_importance'', 4),
                  (''transparency_importance'', 5)])
              ''Your top priorities: environmental sustainability, fair labor practices, animal welfare, supply chain transparency'',
            [''2''])
   \<and> list_all (\<lambda>v. 1 \<le> v \<and> v \<le> 5)
        (map snd (values_dict (fst (projr (assess_ethical_values digit_int True
           [''9'', ''x'', ''4'', ''5'', ''0'', ''3'', ''4'', ''5'', ''2'']))))) "
proof -
  let ?stdin = "[''9'', ''x'', ''4'', ''5'', ''0'', ''3'', ''4'', ''5'', ''2'']"
  let ?captured = "[(''environmental_importance'', 4::int), (''labor_practices_importance'', 5),
                  (''local_sourcing_preference'', 3), (''animal_welfare_importance'', 4),
                  (''transparency_importance'', 5)]"
  have one: "ask digit_int ?stdin = Inr (4, [''5'', ''0'', ''3'', ''4'', ''5'', ''2''])"
    by code_simp
  have no: "\<not> accepted digit_int ''9''"
    by code_simp
  have again: "ask digit_int (''9'' # [''x'', ''4'', ''5'']) = ask digit_int [''x'', ''4'', ''5'']"
    using no captured_values_in_range [of digit_int "[''x'', ''4'', ''5'']" 0 "[]" "''9''"]
    by blast
  have agent: "agent_assess_ethical_values sample_collaborators digit_int ''u1'' ''token-u1-values''
        ?stdin =
       Inr (ValuesResponse ''Ethical values assessment completed'' (ValuesPayload ?captured)
              ''Your top priorities: environmental sustainability, fair labor practices, animal welfare, supply chain transparency'',
            [''2''])"
    by code_simp
  have operon: "assess_ethical_values digit_int True ?stdin =
       Inr (\<lparr>values_dict = ?captured,
              summary = ''Top priorities: environmental sustainability, fair labor practices, animal welfare considerations, supply chain transparency'',
              total_score = 21, assessment_type = ''interactive''\<rparr>, [''2''])"
    by code_simp
  from operon
    captured_values_in_range [of digit_int ?stdin 4 "[''2'']" "''9''" sample_collaborators
      "''u1''" "''token-u1-values''"
      "ValuesResponse ''Ethical values assessment completed'' (ValuesPayload ?captured)
         ''Your top priorities: environmental sustainability, fair labor practices, animal welfare, supply chain transparency''"
      True
      "\<lparr>values_dict = ?captured,
        summary = ''Top priorities: environmental sustainability, fair labor practices, animal welfare considerations, supply chain transparency'',
        total_score = 21, assessment_type = ''interactive''\<rparr>"]
  have "\<forall>v \<in> snd ` set ?captured. 1 \<le> v \<and> v \<le> 5"
    by simp
  then have "list_all (\<lambda>v. 1 \<le> v \<and> v \<le> 5) (map snd ?captured)"
    by simp
  with one no again agent operon show ?thesis
    by simp
qed

subsection \<open>The consent gate of the five operations\<close>

text \<open>
  Whatever the validator and the token it decodes, \<open>generate_report\<close> answers a valid
  token with a report for the subject the caller names.
\<close>

lemma generate_report_of_valid_token:
  "validate_token env token_str (required_scopes email_access) = (True, reason, tok) \<Longrightarrow>
   generate_report env user token_str = Inr (ReportResponse user)"
  by (simp add: generate_report_def)

text \<open>
  C1. Every operation validates the token against its scope and then compares the
  token's subject with the caller's, so that a valid token of another subject never gives
  a success result. \<open>generate_report\<close> does not: with the token that \<open>u1\<close> was issued
  for reading email, a call in the name of \<open>u2\<close> succeeds and returns a report labelled
  \<open>u2\<close>, while \<open>analyze_purchase_history\<close>, which requires the same scope, refuses the
  same call.
\<close>

theorem generate_report_skips_identity_check:
  "validate_token sample_collaborators ''token-u1-email'' (required_scopes email_access) =
     (True, ''Token valid'',
      Some \<lparr>user_id = ''u1'', agent_id = ''ethical_consumption_agent'', scope = VAULT_READ_EMAIL\<rparr>)
   \<and> generate_report sample_collaborators ''u2'' ''token-u1-email'' = Inr (ReportResponse ''u2'')
   \<and> status (ReportResponse ''u2'' :: payload response) = ''success''
   \<and> analyze_purchase_history sample_collaborators ''u2'' ''token-u1-email'' ''last_6_months'' =
       Inl (PermissionError ''Token user ID does not match provided user'')"
  by (simp add: generate_report_def analyze_purchase_history_def sample_collaborators_def
        table_validate_def)

text \<open>
  C2, as stated: a failed validation and a subject mismatch are failures of two distinct
  types. Both are raised as \<open>PermissionError\<close>; here a revoked token and a token of another
  subject, on \<open>analyze_purchase_history\<close>.
\<close>

theorem consent_denied_and_mismatch_same_class:
  "analyze_purchase_history sample_collaborators ''u1'' ''token-u1-old'' ''last_6_months'' =
     Inl (PermissionError ''Consent validation failed: Token has been revoked'')
   \<and> analyze_purchase_history sample_collaborators ''u2'' ''token-u1-email'' ''last_6_months'' =
     Inl (PermissionError ''Token user ID does not match provided user'')
   \<and> class_of (PermissionError ''Consent validation failed: Token has been revoked'') =
     class_of (PermissionError ''Token user ID does not match provided user'')"
  by (simp add: analyze_purchase_history_def sample_collaborators_def table_validate_def)

text \<open>
  C2, amended. In each of the five operations a token that fails validation raises
  \<open>PermissionError\<close> with the message \<open>Consent validation failed: \<close> followed by the
  validator's reason, unchanged. In the four operations that compare subjects
  (\<open>assess_ethical_values\<close>, \<open>analyze_purchase_history\<close>, \<open>search_ethical_products\<close>,
  \<open>trace_supply_chain\<close>) a valid token of another subject raises \<open>PermissionError\<close> with the
  message \<open>Token user ID does not match provided user\<close>. The two failures have the same
  exception class and always differ in their message.
\<close>

theorem gate_failures_are_permission_errors:
  "(validate_token env token_str (required_scopes values_access) = (False, reason, tok) \<longrightarrow>
      agent_assess_ethical_values env py_int user token_str stdin =
        Inl (PermissionError (''Consent validation failed: '' @ reason)))
   \<and> (validate_token env token_str (required_scopes email_access) = (False, reason, tok) \<longrightarrow>
      analyze_purchase_history env user token_str period =
        Inl (PermissionError (''Consent validation failed: '' @ reason))
      \<and> generate_report env user token_str =
        Inl (PermissionError (''Consent validation failed: '' @ reason)))
   \<and> (validate_token env token_str (required_scopes shopping_access) = (False, reason, tok) \<longrightarrow>
      search_ethical_products env user token_str query budget =
        Inl (PermissionError (''Consent validation failed: '' @ reason)))
   \<and> (validate_token env token_str (required_scopes supply_chain) = (False, reason, tok) \<longrightarrow>
      trace_supply_chain env user token_str product_url =
        Inl (PermissionError (''Consent validation failed: '' @ reason)))
   \<and> (validate_token env token_str (required_scopes values_access) = (True, reason, Some t)
        \<and> user_id t \<noteq> user \<longrightarrow>
      agent_assess_ethical_values env py_int user token_str stdin =
        Inl (PermissionError ''Token user ID does not match provided user''))
   \<and> (validate_token env token_str (required_scopes email_access) = (True, reason, Some t)
        \<and> user_id t \<noteq> user \<longrightarrow>
      analyze_purchase_history env user token_str period =
        Inl (PermissionError ''Token user ID does not match provided user''))
   \<and> (validate_token env token_str (required_scopes shopping_access) = (True, reason, Some t)
        \<and> user_id t \<noteq> user \<longrightarrow>
      search_ethical_products env user token_str query budget =
        Inl (PermissionError ''Token user ID does not match provided user''))
   \<and> (validate_token env token_str (required_scopes supply_chain) = (True, reason, Some t)
        \<and> user_id t \<noteq> user \<longrightarrow>
      trace_supply_chain env user token_str product_url =
        Inl (PermissionError ''Token user ID does not match provided user''))
   \<and> class_of (PermissionError (''Consent validation failed: '' @ reason)) =
       class_of (PermissionError ''Token user ID does not match provided user'')
   \<and> ''Consent validation failed: '' @ reason \<noteq> ''Token user ID does not match provided user''"
  by (simp add: agent_assess_ethical_values_def analyze_purchase_history_def generate_report_def
        search_ethical_products_def trace_supply_chain_def)

theorem gate_failures_are_permission_errors_witness:
  "validate_token sample_collaborators ''token-u1-old'' (required_scopes email_access) =
     (False, ''Token has been revoked'', None)
   \<and> analyze_purchase_history sample_collaborators ''u1'' ''token-u1-old'' ''last_6_months'' =
     Inl (PermissionError ''Consent validation failed: Token has been revoked'')
   \<and> generate_report sample_collaborators ''u1'' ''token-u1-old'' =
     Inl (PermissionError ''Consent validation failed: Token has been revoked'')
   \<and> validate_token sample_collaborators ''token-u1-values'' (required_scopes values_access) =
     (True, ''Token valid'',
      Some \<lparr>user_id = ''u1'', agent_id = ''ethical_consumption_agent'', scope = CUSTOM_ETHICAL_VALUES\<rparr>)
   \<and> agent_assess_ethical_values sample_collaborators digit_int ''u2'' ''token-u1-values'' [''4''] =
     Inl (PermissionError ''Token user ID does not match provided user'')"
proof -
  have denied: "validate_token sample_collaborators ''token-u1-old'' (required_scopes email_access) =
     (False, ''Token has been revoked'', None)"
    by (simp add: sample_collaborators_def table_validate_def)
  have granted: "validate_token sample_collaborators ''token-u1-values'' (required_scopes values_access) =
     (True, ''Token valid'',
      Some \<lparr>user_id = ''u1'', agent_id = ''ethical_consumption_agent'', scope = CUSTOM_ETHICAL_VALUES\<rparr>)"
    by (simp add: sample_collaborators_def table_validate_def)
  have other: "user_id \<lparr>user_id = ''u1'', agent_id = ''ethical_consumption_agent'',
                  scope = CUSTOM_ETHICAL_VALUES\<rparr> \<noteq> ''u2''"
    by simp
  from denied
    gate_failures_are_permission_errors [of sample_collaborators "''token-u1-old''"
      "''Token has been revoked''" None digit_int "''u1''" "[]" "''last_6_months''"]
  have first: "analyze_purchase_history sample_collaborators ''u1'' ''token-u1-old'' ''last_6_months'' =
     Inl (PermissionError ''Consent validation failed: Token has been revoked'')
   \<and> generate_report sample_collaborators ''u1'' ''token-u1-old'' =
     Inl (PermissionError ''Consent validation failed: Token has been revoked'')"
    by simp
  from granted other
    gate_failures_are_permission_errors [of sample_collaborators "''token-u1-values''"
      "''Token valid''" _ digit_int "''u2''" "[''4'']" _ _ _ _
      "\<lparr>user_id = ''u1'', agent_id = ''ethical_consumption_agent'', scope = CUSTOM_ETHICAL_VALUES\<rparr>"]
  have second: "agent_assess_ethical_values sample_collaborators digit_int ''u2'' ''token-u1-values'' [''4''] =
     Inl (PermissionError ''Token user ID does not match provided user'')"
    by simp
  from denied granted first second show ?thesis by simp
qed


subsection \<open>The scoring operon: auxiliary facts\<close>

lemma environmental_score_bounds:
  "5 \<le> environmental_score cl a b \<and> environmental_score cl a b \<le> 10"
  by (simp add: environmental_score_def Let_def)

lemma labor_score_bounds: "5 \<le> labor_score cl a \<and> labor_score cl a \<le> 10"
  by (simp add: labor_score_def Let_def)

lemma transparency_score_bounds:
  "5 \<le> transparency_score info cl n \<and> transparency_score info cl n \<le> 10"
  by (simp add: transparency_score_def Let_def)

lemma certification_score_bounds: "0 \<le> certification_score n \<and> certification_score n \<le> 10"
  by (simp add: certification_score_def)

lemma supply_chain_score_le: "supply_chain_score sc origin = Inr s \<Longrightarrow> s \<le> 10"
  by (auto simp: supply_chain_score_def Let_def split: sum.splits)


lemma component_scores_shape:
  assumes "component_scores_of pd = Inr scores"
  shows "\<exists>e l s t c.
           scores = [(''environmental'', e), (''labor'', l), (''supply_chain'', s),
                     (''transparency'', t), (''certifications'', c)]
           \<and> 5 \<le> e \<and> e \<le> 10 \<and> 5 \<le> l \<and> l \<le> 10 \<and> s \<le> 10 \<and> 5 \<le> t \<and> t \<le> 10
           \<and> 0 \<le> c \<and> c \<le> 10
           \<and> supply_chain_score (dict_get pd ''supply_chain'' (PDict []))
                (dict_get pd ''origin'' (PStr ''unknown'')) = Inr s"
  using assms
  by (auto simp: component_scores_of_def Let_def environmental_score_bounds labor_score_bounds
        transparency_score_bounds certification_score_bounds supply_chain_score_le
      split: sum.splits)

lemma component_keys:
  "component_scores_of pd = Inr scores \<Longrightarrow> map fst scores = factor_names"
  using component_scores_shape [of pd scores] by (auto simp: factor_names_def)

lemma weighted_sum_known:
  "list_all (\<lambda>f. f \<in> fst ` set scores) (map fst w) \<Longrightarrow>
   weighted_sum scores w acc = Inr (acc + (\<Sum>(f, x) \<leftarrow> w. score_at scores f * x))"
proof (induction w arbitrary: acc)
  case Nil
  then show ?case by simp
next
  case (Cons p w)
  obtain f x where p: "p = (f, x)" by (cases p)
  from Cons.prems p have "f \<in> fst ` set scores" by simp
  then obtain s where s: "map_of scores f = Some s"
    by (metis domD dom_map_of_conv_image_fst)
  from Cons.prems have "list_all (\<lambda>f. f \<in> fst ` set scores) (map fst w)" by simp
  from Cons.IH [OF this, of "acc + s * x"] s p show ?case
    by (simp add: score_at_def add.assoc)
qed

lemma weighted_sum_unknown:
  "\<not> list_all (\<lambda>f. f \<in> fst ` set scores) (map fst w) \<Longrightarrow>
   \<exists>f. f \<in> set (map fst w) \<and> f \<notin> fst ` set scores \<and> weighted_sum scores w acc = Inl (KeyError f)"
proof (induction w arbitrary: acc)
  case Nil
  then show ?case by simp
next
  case (Cons p w)
  obtain f x where p: "p = (f, x)" by (cases p)
  show ?case
  proof (cases "map_of scores f")
    case None
    then have "f \<notin> fst ` set scores"
      by (simp add: map_of_eq_None_iff)
    with None p show ?thesis by auto
  next
    case (Some s)
    then have "f \<in> fst ` set scores"
      by (metis domI dom_map_of_conv_image_fst)
    with Cons.prems p have "\<not> list_all (\<lambda>f. f \<in> fst ` set scores) (map fst w)" by simp
    from Cons.IH [OF this, of "acc + s * x"] Some p show ?thesis by auto
  qed
qed





lemma score_ethical_factors_InrD:
  assumes "score_ethical_factors pd uv w = Inr r"
  shows "\<exists>scores overall.
           component_scores_of pd = Inr scores
           \<and> weighted_sum scores (case w of None \<Rightarrow> default_weights | Some ws \<Rightarrow> ws) 0 = Inr overall
           \<and> overall_score r = py_round1 (min (overall * user_weight_multiplier uv scores) 10)
           \<and> component_scores r = map (\<lambda>kv. (fst kv, py_round1 (snd kv))) scores
           \<and> strengths r = fst (explain scores) \<and> concerns r = snd (explain scores)
           \<and> certifications_found r = dict_get pd ''certifications'' (PList [])
           \<and> user_alignment r =
               (if 105 / 100 < user_weight_multiplier uv scores then ''high'' else ''moderate'')
           \<and> scoring_methodology r = ''weighted_multi_factor''"
  using assms
  by (auto simp: score_ethical_factors_def Let_def split: sum.splits prod.splits)

lemma scenario_a_run:
  "score_ethical_factors scenario_a_product scenario_a_values None = Inr scenario_a_result"
  by code_simp


lemma scenario_b_components:
  "component_scores_of scenario_b_product =
     Inr [(''environmental'', 5), (''labor'', 5), (''supply_chain'', 2),
          (''transparency'', 5), (''certifications'', 0)]"
  by code_simp

subsection \<open>Bounds of the scores\<close>




subsection \<open>The user-preference multiplier\<close>



subsection \<open>Determinism\<close>



subsection \<open>The two scenarios\<close>

text \<open>
  C7. A product with the certifications Fair Trade, B-Corp and Organic, the origin
  \<open>Local, USA\<close>, and a supply chain with transparency score 8, public reporting and three
  visible tiers, scored for a user whose environmental, labor and transparency
  importances are at least 4 (default weights), gets an overall score of at least 7.0 and
  the alignment \<open>high\<close>, whatever else the product dictionary holds.
\<close>

theorem scenario_a_scores_high:
  assumes certs: "map_of pd ''certifications'' =
                    Some (PList [PStr ''Fair Trade'', PStr ''B-Corp'', PStr ''Organic''])"
    and origin: "map_of pd ''origin'' = Some (PStr ''Local, USA'')"
    and chain: "map_of pd ''supply_chain'' = Some (PDict info)"
    and level: "map_of info ''transparency_score'' = Some level" "as_number level = Inr 8"
    and reporting: "map_of info ''public_reporting'' = Some (PBool True)"
    and tiers: "map_of info ''tier_visibility'' = Some (PList tiers)" "length tiers = 3"
    and imp: "4 \<le> importance uv ''environmental_importance''"
             "4 \<le> importance uv ''labor_practices_importance''"
             "4 \<le> importance uv ''transparency_importance''"
  shows "\<exists>r. score_ethical_factors pd uv None = Inr r
            \<and> 7 \<le> overall_score r \<and> user_alignment r = ''high''"
proof -
  let ?cl = "[''fair trade'', ''b-corp'', ''organic'']"
  define e where "e = environmental_score ?cl
      (py_lower (py_str (dict_get pd ''environmental_impact'' (PDict []))))
      (py_lower (py_str (PDict pd)))"
  define l where "l = labor_score ?cl (py_lower (py_str (dict_get pd ''labor_practices'' (PDict []))))"
  have lc: "lowered (PList [PStr ''Fair Trade'', PStr ''B-Corp'', PStr ''Organic'']) = Inr ?cl"
    by code_simp
  have lo: "py_lower ''Local, USA'' = ''local, usa''"
    by code_simp
  have near: "sublist ''local'' ''local, usa''"
    by code_simp
  have sup: "supply_chain_score (PDict info) (PStr ''Local, USA'') = Inr 10"
    using level tiers near by (simp add: supply_chain_score_def dict_get_def lo Let_def)
  have trans: "transparency_score info ?cl (Suc (Suc (Suc 0))) = 95 / 10"
    using reporting by (simp add: transparency_score_def dict_get_def Let_def)
  have cert: "certification_score (Suc (Suc (Suc 0))) = 45 / 10"
    by (simp add: certification_score_def)
  have e: "65 / 10 \<le> e" "e \<le> 10"
    by (simp_all add: e_def environmental_score_def Let_def)
  have l: "7 \<le> l" "l \<le> 10"
    by (simp_all add: l_def labor_score_def Let_def)
  let ?scores = "[(''environmental'', e), (''labor'', l), (''supply_chain'', 10),
                  (''transparency'', 95 / 10), (''certifications'', 45 / 10)]"
  have scores: "component_scores_of pd = Inr ?scores"
    using certs origin chain
    by (simp add: component_scores_of_def dict_get_def lc sup trans cert e_def l_def Let_def)
  define overall where "overall = e * (25 / 100) + l * (25 / 100) + 41 / 10"
  have ws: "weighted_sum ?scores default_weights 0 = Inr overall"
    by (simp add: default_weights_def overall_def)
  define m where "m = user_weight_multiplier uv ?scores"
  have m: "m = 1 + e / 100 + l / 100 + 95 / 1000"
    using imp by (simp add: m_def user_weight_multiplier_def score_at_def Let_def)
  have "7 \<le> overall" using e l by (simp add: overall_def)
  moreover have "1 \<le> m" using m e l by simp
  ultimately have "7 * 1 \<le> overall * m"
    by (intro mult_mono) simp_all
  then have "7 \<le> min (overall * m) 10" by simp
  then have big: "7 \<le> py_round1 (min (overall * m) 10)"
    using py_round1_mono [of 7 "min (overall * m) 10"] by (simp add: py_round1_7)
  have high: "105 / 100 < m" using m e l by simp
  obtain st co where ex: "explain ?scores = (st, co)" by (cases "explain ?scores")
  have "score_ethical_factors pd uv None =
          Inr \<lparr>overall_score = py_round1 (min (overall * m) 10),
               component_scores = map (\<lambda>kv. (fst kv, py_round1 (snd kv))) ?scores,
               strengths = st, concerns = co,
               certifications_found = dict_get pd ''certifications'' (PList []),
               user_alignment = ''high'',
               scoring_methodology = ''weighted_multi_factor''\<rparr>"
    using high unfolding score_ethical_factors_def
    by (simp only: scores ws ex Let_def m_def [symmetric] option.case sum.case prod.case if_True)
  with big show ?thesis by simp
qed

theorem scenario_a_scores_high_witness:
  "score_ethical_factors scenario_a_product scenario_a_values None = Inr scenario_a_result
   \<and> 7 \<le> overall_score scenario_a_result \<and> user_alignment scenario_a_result = ''high''"
proof -
  let ?info = "[(''transparency_score'', PInt 8), (''public_reporting'', PBool True),
                (''tier_visibility'', PList [PStr ''tier1'', PStr ''tier2'', PStr ''tier3''])]"
  have "\<exists>r. score_ethical_factors scenario_a_product scenario_a_values None = Inr r
            \<and> 7 \<le> overall_score r \<and> user_alignment r = ''high''"
    by (rule scenario_a_scores_high [where info = ?info and level = "PInt 8"
          and tiers = "[PStr ''tier1'', PStr ''tier2'', PStr ''tier3'']"])
       (simp_all add: scenario_a_product_def scenario_a_values_def importance_def)
  then show ?thesis by (simp add: scenario_a_run)
qed

text \<open>
  C8. The product with no certifications, the origin \<open>Unknown\<close> and a supply chain with
  transparency score 2 (the product of the repository's test), scored for a user whose
  environmental, labor and transparency importances are at least 4, gets the overall score
  4.2, which is at most 6.0, and a concerns list that is not empty.
\<close>

theorem scenario_b_scores_low:
  assumes "4 \<le> importance uv ''environmental_importance''"
          "4 \<le> importance uv ''labor_practices_importance''"
          "4 \<le> importance uv ''transparency_importance''"
  shows "score_ethical_factors scenario_b_product uv None = Inr scenario_b_result
         \<and> overall_score scenario_b_result \<le> 6 \<and> concerns scenario_b_result \<noteq> []"
proof -
  let ?scores = "[(''environmental'', 5), (''labor'', 5), (''supply_chain'', 2),
          (''transparency'', 5), (''certifications'', 0)] :: (string \<times> real) list"
  have ws: "weighted_sum ?scores default_weights 0 = Inr (365 / 100)"
    by (simp add: default_weights_def)
  have m: "user_weight_multiplier uv ?scores = 115 / 100"
    using assms by (simp add: user_weight_multiplier_def score_at_def Let_def)
  have r: "py_round1 (min (365 / 100 * (115 / 100)) 10) = 42 / 10"
    by (simp add: py_round1_def round_half_even_def Let_def)
  have c: "map (\<lambda>kv. (fst kv, py_round1 (snd kv))) ?scores = ?scores"
    using py_round1_tenths [of 50] py_round1_tenths [of 20] py_round1_tenths [of 0] by simp
  have ex: "explain ?scores =
    ([], [''Limited supply chain information'', ''Limited certifications information''])"
    by (simp add: spaced_def)
  have g: "dict_get scenario_b_product ''certifications'' (PList []) = PList []"
    by (simp add: dict_get_def scenario_b_product_def)
  have "score_ethical_factors scenario_b_product uv None = Inr scenario_b_result"
    unfolding score_ethical_factors_def scenario_b_result_def
    by (simp only: scenario_b_components ws m r c ex g Let_def option.case sum.case prod.case)
       simp
  then show ?thesis by (simp add: scenario_b_result_def)
qed

theorem scenario_b_scores_low_witness:
  "4 \<le> importance scenario_b_values ''environmental_importance''
   \<and> 4 \<le> importance scenario_b_values ''labor_practices_importance''
   \<and> 4 \<le> importance scenario_b_values ''transparency_importance''
   \<and> score_ethical_factors scenario_b_product scenario_b_values None = Inr scenario_b_result
   \<and> overall_score scenario_b_result \<le> 6 \<and> concerns scenario_b_result \<noteq> []"
proof -
  have i: "4 \<le> importance scenario_b_values ''environmental_importance''"
          "4 \<le> importance scenario_b_values ''labor_practices_importance''"
          "4 \<le> importance scenario_b_values ''transparency_importance''"
    by (simp_all add: importance_def scenario_b_values_def)
  from i scenario_b_scores_low [OF i] show ?thesis by simp
qed

subsection \<open>Caller-supplied weights\<close>



subsection \<open>Texts inside a stringified dictionary\<close>

lemma sublist_sep:
  assumes "x \<notin> set n"
  shows "sublist n (a @ x # b) \<longleftrightarrow> sublist n a \<or> sublist n b"
proof
  assume "sublist n (a @ x # b)"
  then consider "sublist n a" | "sublist n (x # b)"
    | xs1 xs2 where "n = xs1 @ xs2" "suffix xs1 a" "prefix xs2 (x # b)"
    unfolding sublist_append by blast
  then show "sublist n a \<or> sublist n b"
  proof cases
    case 1
    then show ?thesis by simp
  next
    case 2
    then have "prefix n (x # b) \<or> sublist n b" by (simp add: sublist_Cons_right)
    then show ?thesis using assms by (auto simp: prefix_Cons)
  next
    case 3
    from 3(3) assms 3(1) have "xs2 = []" by (auto simp: prefix_Cons)
    with 3(1,2) show ?thesis by auto
  qed
next
  assume "sublist n a \<or> sublist n b"
  then show "sublist n (a @ x # b)"
    by (auto simp: sublist_append sublist_Cons_right)
qed

lemma sublist_sep_front: "x \<notin> set n \<Longrightarrow> n \<noteq> [] \<Longrightarrow> sublist n (x # b) \<longleftrightarrow> sublist n b"
  using sublist_sep [of x n "[]" b] by simp

lemma sublist_space_front:
  "n \<noteq> [] \<Longrightarrow> hd n \<noteq> CHR '' '' \<Longrightarrow> sublist n (CHR '' '' # b) \<longleftrightarrow> sublist n b"
  by (cases n) (auto simp: sublist_Cons_right prefix_Cons)

lemma sublist_sep_back: "x \<notin> set n \<Longrightarrow> n \<noteq> [] \<Longrightarrow> sublist n (a @ [x]) \<longleftrightarrow> sublist n a"
  using sublist_sep [of x n a "[]"] by simp

lemma py_lower_append: "py_lower (a @ b) = py_lower a @ py_lower b"
  by (simp add: py_lower_def)

lemma py_lower_Cons: "py_lower (c # s) = lower_char c # py_lower s"
  by (simp add: py_lower_def)

lemma py_lower_Nil: "py_lower [] = []"
  by (simp add: py_lower_def)

lemma lower_separators:
  "lower_char CHR '','' = CHR '',''" "lower_char CHR '' '' = CHR '' ''"
  "lower_char CHR '':'' = CHR '':''" "lower_char CHR ''['' = CHR ''[''"
  "lower_char CHR '']'' = CHR '']''" "lower_char CHR ''{'' = CHR ''{''"
  "lower_char CHR ''}'' = CHR ''}''"
  by code_simp+

lemma plainD:
  assumes "plain n"
  shows "n \<noteq> []" "CHR '','' \<notin> set n" "hd n \<noteq> CHR '' ''" "CHR '':'' \<notin> set n"
    "CHR ''['' \<notin> set n" "CHR '']'' \<notin> set n" "CHR ''{'' \<notin> set n" "CHR ''}'' \<notin> set n"
  using assms by (auto simp: plain_def list_all_iff)

lemma sublist_lower_join:
  assumes "plain n"
  shows "sublist n (py_lower (join '', '' xs)) \<longleftrightarrow> (\<exists>x \<in> set xs. sublist n (py_lower x))"
proof (induction xs)
  case Nil
  then show ?case using plainD(1) [OF assms] by (simp add: py_lower_Nil)
next
  case (Cons x xs)
  show ?case
  proof (cases xs)
    case Nil
    then show ?thesis by simp
  next
    case (Cons y ys)
    have "sublist n (py_lower (join '', '' (x # y # ys))) \<longleftrightarrow>
          sublist n (py_lower x @ CHR '','' # CHR '' '' # py_lower (join '', '' (y # ys)))"
      by (simp add: py_lower_append py_lower_Cons lower_separators)
    also have "\<dots> \<longleftrightarrow>
          sublist n (py_lower x) \<or> sublist n (CHR '' '' # py_lower (join '', '' (y # ys)))"
      using plainD(2) [OF assms] by (rule sublist_sep)
    also have "\<dots> \<longleftrightarrow> sublist n (py_lower x) \<or> sublist n (py_lower (join '', '' (y # ys)))"
      using sublist_space_front [OF plainD(1) [OF assms] plainD(3) [OF assms]] by simp
    finally show ?thesis using Cons.IH Cons by simp
  qed
qed

lemma mentions_list:
  assumes "plain n"
  shows "mentions n (PList xs) \<longleftrightarrow> (\<exists>x \<in> set xs. mentions n x)"
proof -
  have "mentions n (PList xs) \<longleftrightarrow>
        sublist n (CHR ''['' # (py_lower (join '', '' (map py_repr xs)) @ [CHR '']'']))"
    by (simp add: mentions_def py_lower_append py_lower_Cons py_lower_Nil lower_separators)
  also have "\<dots> \<longleftrightarrow> sublist n (py_lower (join '', '' (map py_repr xs)) @ [CHR '']''])"
    using plainD(5) [OF assms] plainD(1) [OF assms] by (rule sublist_sep_front)
  also have "\<dots> \<longleftrightarrow> sublist n (py_lower (join '', '' (map py_repr xs)))"
    using plainD(6) [OF assms] plainD(1) [OF assms] by (rule sublist_sep_back)
  also have "\<dots> \<longleftrightarrow> (\<exists>x \<in> set xs. mentions n x)"
    using sublist_lower_join [OF assms, of "map py_repr xs"] by (auto simp: mentions_def)
  finally show ?thesis .
qed

lemma sublist_lower_item:
  assumes "plain n"
  shows "sublist n (py_lower (str_repr k @ '': '' @ py_repr v)) \<longleftrightarrow>
         sublist n (py_lower (str_repr k)) \<or> mentions n v"
proof -
  have "sublist n (py_lower (str_repr k @ '': '' @ py_repr v)) \<longleftrightarrow>
        sublist n (py_lower (str_repr k) @ CHR '':'' # CHR '' '' # py_lower (py_repr v))"
    by (simp add: py_lower_append py_lower_Cons lower_separators)
  also have "\<dots> \<longleftrightarrow> sublist n (py_lower (str_repr k)) \<or> sublist n (CHR '' '' # py_lower (py_repr v))"
    using plainD(4) [OF assms] by (rule sublist_sep)
  also have "\<dots> \<longleftrightarrow> sublist n (py_lower (str_repr k)) \<or> mentions n v"
    using sublist_space_front [OF plainD(1) [OF assms] plainD(3) [OF assms]]
    by (simp add: mentions_def)
  finally show ?thesis .
qed

lemma mentions_dict:
  assumes "plain n"
  shows "mentions n (PDict kvs) \<longleftrightarrow>
         (\<exists>kv \<in> set kvs. sublist n (py_lower (str_repr (fst kv))) \<or> mentions n (snd kv))"
proof -
  let ?items = "map (\<lambda>kv. str_repr (fst kv) @ '': '' @ py_repr (snd kv)) kvs"
  have "mentions n (PDict kvs) \<longleftrightarrow>
        sublist n (CHR ''{'' # (py_lower (join '', '' ?items) @ [CHR ''}'']))"
    by (simp add: mentions_def py_lower_append py_lower_Cons py_lower_Nil lower_separators)
  also have "\<dots> \<longleftrightarrow> sublist n (py_lower (join '', '' ?items) @ [CHR ''}''])"
    using plainD(7) [OF assms] plainD(1) [OF assms] by (rule sublist_sep_front)
  also have "\<dots> \<longleftrightarrow> sublist n (py_lower (join '', '' ?items))"
    using plainD(8) [OF assms] plainD(1) [OF assms] by (rule sublist_sep_back)
  also have "\<dots> \<longleftrightarrow> (\<exists>item \<in> set ?items. sublist n (py_lower item))"
    by (rule sublist_lower_join [OF assms])
  also have "\<dots> \<longleftrightarrow>
      (\<exists>kv \<in> set kvs. sublist n (py_lower (str_repr (fst kv) @ '': '' @ py_repr (snd kv))))"
    by auto
  also have "\<dots> \<longleftrightarrow>
      (\<exists>kv \<in> set kvs. sublist n (py_lower (str_repr (fst kv))) \<or> mentions n (snd kv))"
    unfolding sublist_lower_item [OF assms] ..
  finally show ?thesis .
qed

lemma update_keeps_or_replaces:
  "kv \<in> set al \<Longrightarrow>
   kv \<in> set (AList.update k v al) \<or> (fst kv = k \<and> map_of al k = Some (snd kv))"
  by (induction al) auto

lemma update_has_new: "(k, v) \<in> set (AList.update k v al)"
  by (induction al) auto

lemma mentions_update:
  assumes n: "plain n"
    and old: "\<And>x. map_of al k = Some x \<Longrightarrow> mentions n x \<Longrightarrow> mentions n v"
    and m: "mentions n (PDict al)"
  shows "mentions n (PDict (AList.update k v al))"
proof -
  from m obtain kv where kv: "kv \<in> set al"
    and hit: "sublist n (py_lower (str_repr (fst kv))) \<or> mentions n (snd kv)"
    unfolding mentions_dict [OF n] by blast
  from update_keeps_or_replaces [OF kv, of k v] show ?thesis
  proof
    assume "kv \<in> set (AList.update k v al)"
    with hit show ?thesis unfolding mentions_dict [OF n] by blast
  next
    assume r: "fst kv = k \<and> map_of al k = Some (snd kv)"
    have new: "(k, v) \<in> set (AList.update k v al)" by (rule update_has_new)
    from hit show ?thesis
    proof
      assume "sublist n (py_lower (str_repr (fst kv)))"
      with r have "sublist n (py_lower (str_repr (fst (k, v))))" by simp
      with new show ?thesis unfolding mentions_dict [OF n] by blast
    next
      assume "mentions n (snd kv)"
      with r old have "mentions n (snd (k, v))" by simp
      with new show ?thesis unfolding mentions_dict [OF n] by blast
    qed
  qed
qed

lemma dict_get_update:
  "dict_get (AList.update k v al) k' d = (if k' = k then v else dict_get al k' d)"
  by (simp add: dict_get_def update_conv')

subsection \<open>Monotonicity of the component scores\<close>

lemma environmental_score_mono:
  assumes "set cl \<subseteq> set cl'"
    and "sublist ''carbon neutral'' a \<Longrightarrow> sublist ''carbon neutral'' a'"
    and "sublist ''renewable energy'' a \<Longrightarrow> sublist ''renewable energy'' a'"
    and "sublist ''recyclable'' b \<Longrightarrow> sublist ''recyclable'' b'"
  shows "environmental_score cl a b \<le> environmental_score cl' a' b'"
proof -
  have o: "''organic'' \<in> set cl \<Longrightarrow> ''organic'' \<in> set cl'" using assms(1) by blast
  show ?thesis
    using o assms(2,3,4) by (simp add: environmental_score_def Let_def)
qed

lemma labor_score_mono:
  assumes "set cl \<subseteq> set cl'"
    and "sublist ''living wage'' a \<Longrightarrow> sublist ''living wage'' a'"
    and "sublist ''worker rights'' a \<Longrightarrow> sublist ''worker rights'' a'"
  shows "labor_score cl a \<le> labor_score cl' a'"
proof -
  have f: "''fair trade'' \<in> set cl \<Longrightarrow> ''fair trade'' \<in> set cl'" using assms(1) by blast
  have s: "''sa8000'' \<in> set cl \<Longrightarrow> ''sa8000'' \<in> set cl'" using assms(1) by blast
  show ?thesis
    using f s assms(2,3) by (simp add: labor_score_def Let_def)
qed

lemma transparency_score_mono:
  assumes "set cl \<subseteq> set cl'" and "n \<le> n'"
    and "truthy (dict_get info ''public_reporting'' (PBool False)) \<Longrightarrow>
         truthy (dict_get info' ''public_reporting'' (PBool False))"
  shows "transparency_score info cl n \<le> transparency_score info' cl' n'"
proof -
  have b: "''b-corp'' \<in> set cl \<Longrightarrow> ''b-corp'' \<in> set cl'" using assms(1) by blast
  have c: "2 < n \<Longrightarrow> 2 < n'" using assms(2) by simp
  show ?thesis
    using b c assms(3) by (simp add: transparency_score_def Let_def)
qed

lemma certification_score_mono: "n \<le> n' \<Longrightarrow> certification_score n \<le> certification_score n'"
  by (simp add: certification_score_def min_le_iff_disj)

lemma lower_each_append:
  "lower_each xs = Inr ls \<Longrightarrow> lower_each (xs @ [PStr c]) = Inr (ls @ [py_lower c])"
  by (induction xs arbitrary: ls) (auto split: sum.splits)

lemma needles_plain:
  "plain ''recyclable''" "plain ''carbon neutral''" "plain ''renewable energy''"
  "plain ''living wage''" "plain ''worker rights''"
  by (simp_all add: plain_def)

lemmas recyclable_plain = needles_plain(1)

lemma weighted_sum_same_keys:
  assumes "weighted_sum scores w acc = Inr tot" and "fst ` set scores = fst ` set scores'"
  shows "\<exists>tot'. weighted_sum scores' w acc' = Inr tot'"
proof (cases "list_all (\<lambda>f. f \<in> fst ` set scores) (map fst w)")
  case True
  with assms(2) have "list_all (\<lambda>f. f \<in> fst ` set scores') (map fst w)" by simp
  from weighted_sum_known [OF this] show ?thesis by blast
next
  case False
  from weighted_sum_unknown [OF this, of acc] assms(1) show ?thesis by auto
qed

lemma score_of_components:
  assumes r: "score_ethical_factors pd uv w = Inr r"
    and c: "component_scores_of pd = Inr scores"
    and c': "component_scores_of pd' = Inr scores'"
    and le: "scores_le scores scores'"
  shows "\<exists>r'. score_ethical_factors pd' uv w = Inr r'
             \<and> scores_le (component_scores r) (component_scores r')"
proof -
  let ?w = "case w of None \<Rightarrow> default_weights | Some ws \<Rightarrow> ws"
  from score_ethical_factors_InrD [OF r] c obtain overall where
    ws: "weighted_sum scores ?w 0 = Inr overall" and
    cs: "component_scores r = map (\<lambda>kv. (fst kv, py_round1 (snd kv))) scores"
    by auto
  from component_keys [OF c] component_keys [OF c']
  have "fst ` set scores = fst ` set scores'" by (metis set_map)
  from weighted_sum_same_keys [OF ws this, of 0] obtain overall' where
    ws': "weighted_sum scores' ?w 0 = Inr overall'" by blast
  obtain st co where ex: "explain scores' = (st, co)" by (cases "explain scores'")
  have "\<exists>r'. score_ethical_factors pd' uv w = Inr r'
          \<and> component_scores r' = map (\<lambda>kv. (fst kv, py_round1 (snd kv))) scores'"
    by (simp add: score_ethical_factors_def c' ws' ex Let_def)
  then obtain r' where r': "score_ethical_factors pd' uv w = Inr r'"
    and cs': "component_scores r' = map (\<lambda>kv. (fst kv, py_round1 (snd kv))) scores'"
    by blast
  from le have "scores_le (component_scores r) (component_scores r')"
    unfolding cs cs' scores_le_def
    by (simp add: list_all2_map1 list_all2_map2 py_round1_mono list_all2_mono)
  with r' show ?thesis by blast
qed

lemma component_scores_of_InrD:
  assumes "component_scores_of pd = Inr scores"
  shows "\<exists>cl s info n.
           lowered (dict_get pd ''certifications'' (PList [])) = Inr cl
           \<and> supply_chain_score (dict_get pd ''supply_chain'' (PDict []))
                (dict_get pd ''origin'' (PStr ''unknown'')) = Inr s
           \<and> as_dict (dict_get pd ''supply_chain'' (PDict [])) = Inr info
           \<and> py_len (dict_get pd ''certifications'' (PList [])) = Inr n
           \<and> scores =
               [(''environmental'',
                   environmental_score cl
                     (py_lower (py_str (dict_get pd ''environmental_impact'' (PDict []))))
                     (py_lower (py_str (PDict pd)))),
                (''labor'',
                   labor_score cl (py_lower (py_str (dict_get pd ''labor_practices'' (PDict []))))),
                (''supply_chain'', s),
                (''transparency'', transparency_score info cl n),
                (''certifications'', certification_score n)]"
  using assms by (auto simp: component_scores_of_def Let_def split: sum.splits)

lemma component_scores_of_InrI:
  assumes "lowered (dict_get pd ''certifications'' (PList [])) = Inr cl"
    and "supply_chain_score (dict_get pd ''supply_chain'' (PDict []))
                (dict_get pd ''origin'' (PStr ''unknown'')) = Inr s"
    and "as_dict (dict_get pd ''supply_chain'' (PDict [])) = Inr info"
    and "py_len (dict_get pd ''certifications'' (PList [])) = Inr n"
  shows "component_scores_of pd =
           Inr [(''environmental'',
                   environmental_score cl
                     (py_lower (py_str (dict_get pd ''environmental_impact'' (PDict []))))
                     (py_lower (py_str (PDict pd)))),
                (''labor'',
                   labor_score cl (py_lower (py_str (dict_get pd ''labor_practices'' (PDict []))))),
                (''supply_chain'', s),
                (''transparency'', transparency_score info cl n),
                (''certifications'', certification_score n)]"
  using assms by (simp add: component_scores_of_def Let_def)

lemma recyclable_text:
  "sublist ''recyclable'' (py_lower (py_str (PDict pd))) = mentions ''recyclable'' (PDict pd)"
  by (simp add: mentions_def py_str_def)

lemma add_certification_components:
  assumes c: "component_scores_of pd = Inr scores"
    and cs: "dict_get pd ''certifications'' (PList []) = PList cs"
  shows "\<exists>scores'. component_scores_of (add_certification x pd) = Inr scores'
                    \<and> scores_le scores scores'"
proof -
  define pd' where "pd' = AList.update ''certifications'' (PList (cs @ [PStr x])) pd"
  have pd': "add_certification x pd = pd'"
    by (simp add: add_certification_def cs pd'_def)
  from component_scores_of_InrD [OF c] cs obtain cl s info where
    cl: "lowered (PList cs) = Inr cl" and
    s: "supply_chain_score (dict_get pd ''supply_chain'' (PDict []))
                (dict_get pd ''origin'' (PStr ''unknown'')) = Inr s" and
    info: "as_dict (dict_get pd ''supply_chain'' (PDict [])) = Inr info" and
    scores: "scores =
               [(''environmental'',
                   environmental_score cl
                     (py_lower (py_str (dict_get pd ''environmental_impact'' (PDict []))))
                     (py_lower (py_str (PDict pd)))),
                (''labor'',
                   labor_score cl (py_lower (py_str (dict_get pd ''labor_practices'' (PDict []))))),
                (''supply_chain'', s),
                (''transparency'', transparency_score info cl (length cs)),
                (''certifications'', certification_score (length cs))]"
    by auto
  have g_cert: "dict_get pd' ''certifications'' (PList []) = PList (cs @ [PStr x])"
    by (simp add: pd'_def dict_get_update)
  have g_other: "\<And>k d. k \<noteq> ''certifications'' \<Longrightarrow> dict_get pd' k d = dict_get pd k d"
    by (simp add: pd'_def dict_get_update)
  from cl have cl': "lowered (PList (cs @ [PStr x])) = Inr (cl @ [py_lower x])"
    by (simp add: lowered_def lower_each_append)
  have c': "component_scores_of pd' =
           Inr [(''environmental'',
                   environmental_score (cl @ [py_lower x])
                     (py_lower (py_str (dict_get pd ''environmental_impact'' (PDict []))))
                     (py_lower (py_str (PDict pd')))),
                (''labor'',
                   labor_score (cl @ [py_lower x])
                     (py_lower (py_str (dict_get pd ''labor_practices'' (PDict []))))),
                (''supply_chain'', s),
                (''transparency'', transparency_score info (cl @ [py_lower x]) (Suc (length cs))),
                (''certifications'', certification_score (Suc (length cs)))]"
    using component_scores_of_InrI [of pd' "cl @ [py_lower x]" s info "Suc (length cs)"]
      cl' s info
    by (simp add: g_cert g_other)
  have keep: "sublist ''recyclable'' (py_lower (py_str (PDict pd'))) "
    if "sublist ''recyclable'' (py_lower (py_str (PDict pd)))"
  proof -
    have old: "mentions ''recyclable'' (PList (cs @ [PStr x]))"
      if m: "map_of pd ''certifications'' = Some v" and h: "mentions ''recyclable'' v" for v
    proof -
      from m cs have "v = PList cs" by (simp add: dict_get_def)
      with h show ?thesis by (auto simp: mentions_list [OF recyclable_plain])
    qed
    from that have "mentions ''recyclable'' (PDict pd)" by (simp add: recyclable_text)
    from mentions_update [OF recyclable_plain old this]
    show ?thesis by (simp add: recyclable_text pd'_def)
  qed
  have sub: "set cl \<subseteq> set (cl @ [py_lower x])" by auto
  have "scores_le scores
          [(''environmental'',
                   environmental_score (cl @ [py_lower x])
                     (py_lower (py_str (dict_get pd ''environmental_impact'' (PDict []))))
                     (py_lower (py_str (PDict pd')))),
                (''labor'',
                   labor_score (cl @ [py_lower x])
                     (py_lower (py_str (dict_get pd ''labor_practices'' (PDict []))))),
                (''supply_chain'', s),
                (''transparency'', transparency_score info (cl @ [py_lower x]) (Suc (length cs))),
                (''certifications'', certification_score (Suc (length cs)))]"
    unfolding scores scores_le_def
    using environmental_score_mono [OF sub _ _ keep] labor_score_mono [OF sub]
      transparency_score_mono [OF sub, of "length cs" "Suc (length cs)" info info]
      certification_score_mono [of "length cs" "Suc (length cs)"]
    by simp
  with c' pd' show ?thesis by simp
qed

lemma false_has_no_recyclable: "\<not> mentions ''recyclable'' (PBool False)"
  by code_simp

lemma set_public_reporting_components:
  assumes c: "component_scores_of pd = Inr scores"
    and sc: "dict_get pd ''supply_chain'' (PDict []) = PDict info"
    and unset: "dict_get info ''public_reporting'' (PBool False) = PBool False"
  shows "\<exists>scores'. component_scores_of (set_public_reporting pd) = Inr scores'
                    \<and> scores_le scores scores'"
proof -
  define info' where "info' = AList.update ''public_reporting'' (PBool True) info"
  define pd' where "pd' = AList.update ''supply_chain'' (PDict info') pd"
  have pd': "set_public_reporting pd = pd'"
    by (simp add: set_public_reporting_def sc pd'_def info'_def)
  from component_scores_of_InrD [OF c] sc obtain cl s n where
    cl: "lowered (dict_get pd ''certifications'' (PList [])) = Inr cl" and
    s: "supply_chain_score (PDict info) (dict_get pd ''origin'' (PStr ''unknown'')) = Inr s" and
    n: "py_len (dict_get pd ''certifications'' (PList [])) = Inr n" and
    scores: "scores =
               [(''environmental'',
                   environmental_score cl
                     (py_lower (py_str (dict_get pd ''environmental_impact'' (PDict []))))
                     (py_lower (py_str (PDict pd)))),
                (''labor'',
                   labor_score cl (py_lower (py_str (dict_get pd ''labor_practices'' (PDict []))))),
                (''supply_chain'', s),
                (''transparency'', transparency_score info cl n),
                (''certifications'', certification_score n)]"
    by auto
  have g_chain: "dict_get pd' ''supply_chain'' (PDict []) = PDict info'"
    by (simp add: pd'_def dict_get_update)
  have g_other: "\<And>k d. k \<noteq> ''supply_chain'' \<Longrightarrow> dict_get pd' k d = dict_get pd k d"
    by (simp add: pd'_def dict_get_update)
  have i_other: "\<And>k d. k \<noteq> ''public_reporting'' \<Longrightarrow> dict_get info' k d = dict_get info k d"
    by (simp add: info'_def dict_get_update)
  have i_set: "dict_get info' ''public_reporting'' (PBool False) = PBool True"
    by (simp add: info'_def dict_get_update)
  have s': "supply_chain_score (PDict info') (dict_get pd ''origin'' (PStr ''unknown'')) = Inr s"
  proof -
    have "supply_chain_score (PDict info') (dict_get pd ''origin'' (PStr ''unknown'')) =
          supply_chain_score (PDict info) (dict_get pd ''origin'' (PStr ''unknown''))"
      by (simp add: supply_chain_score_def i_other Let_def split: sum.splits)
    with s show ?thesis by simp
  qed
  have c': "component_scores_of pd' =
           Inr [(''environmental'',
                   environmental_score cl
                     (py_lower (py_str (dict_get pd ''environmental_impact'' (PDict []))))
                     (py_lower (py_str (PDict pd')))),
                (''labor'',
                   labor_score cl (py_lower (py_str (dict_get pd ''labor_practices'' (PDict []))))),
                (''supply_chain'', s),
                (''transparency'', transparency_score info' cl n),
                (''certifications'', certification_score n)]"
    using component_scores_of_InrI [of pd' cl s info' n] cl s' n
    by (simp add: g_chain g_other)
  have keep: "sublist ''recyclable'' (py_lower (py_str (PDict pd'))) "
    if "sublist ''recyclable'' (py_lower (py_str (PDict pd)))"
  proof -
    have inner: "mentions ''recyclable'' (PBool True)"
      if m: "map_of info ''public_reporting'' = Some y" and h: "mentions ''recyclable'' y" for y
    proof -
      from m unset have "y = PBool False" by (simp add: dict_get_def)
      with h false_has_no_recyclable show ?thesis by simp
    qed
    have outer: "mentions ''recyclable'' (PDict info')"
      if m: "map_of pd ''supply_chain'' = Some v" and h: "mentions ''recyclable'' v" for v
    proof -
      from m sc have "v = PDict info" by (simp add: dict_get_def)
      with h have "mentions ''recyclable'' (PDict info)" by simp
      from mentions_update [OF recyclable_plain inner this]
      show ?thesis by (simp add: info'_def)
    qed
    from that have "mentions ''recyclable'' (PDict pd)" by (simp add: recyclable_text)
    from mentions_update [OF recyclable_plain outer this]
    show ?thesis by (simp add: recyclable_text pd'_def)
  qed
  have "scores_le scores
          [(''environmental'',
                   environmental_score cl
                     (py_lower (py_str (dict_get pd ''environmental_impact'' (PDict []))))
                     (py_lower (py_str (PDict pd')))),
                (''labor'',
                   labor_score cl (py_lower (py_str (dict_get pd ''labor_practices'' (PDict []))))),
                (''supply_chain'', s),
                (''transparency'', transparency_score info' cl n),
                (''certifications'', certification_score n)]"
    unfolding scores scores_le_def
    using environmental_score_mono [OF subset_refl _ _ keep]
      transparency_score_mono [OF subset_refl le_refl, of info info' cl n] i_set
    by simp
  with c' pd' show ?thesis by simp
qed

lemma scenario_b_run:
  "score_ethical_factors scenario_b_product scenario_b_values None = Inr scenario_b_result"
  by code_simp

lemma add_flag_components:
  assumes c: "component_scores_of pd = Inr scores"
    and part: "part = ''environmental_impact'' \<or> part = ''labor_practices''"
    and d: "dict_get pd part (PDict []) = PDict d"
    and new: "map_of d flag = None"
  shows "\<exists>scores'. component_scores_of (add_flag part flag v pd) = Inr scores'
                    \<and> scores_le scores scores'"
proof -
  define d' where "d' = AList.update flag v d"
  define pd' where "pd' = AList.update part (PDict d') pd"
  have pd': "add_flag part flag v pd = pd'"
    by (simp add: add_flag_def d pd'_def d'_def)
  from component_scores_of_InrD [OF c] obtain cl s info n where
    cl: "lowered (dict_get pd ''certifications'' (PList [])) = Inr cl" and
    s: "supply_chain_score (dict_get pd ''supply_chain'' (PDict []))
          (dict_get pd ''origin'' (PStr ''unknown'')) = Inr s" and
    info: "as_dict (dict_get pd ''supply_chain'' (PDict [])) = Inr info" and
    n: "py_len (dict_get pd ''certifications'' (PList [])) = Inr n" and
    scores: "scores =
               [(''environmental'',
                   environmental_score cl
                     (py_lower (py_str (dict_get pd ''environmental_impact'' (PDict []))))
                     (py_lower (py_str (PDict pd)))),
                (''labor'',
                   labor_score cl (py_lower (py_str (dict_get pd ''labor_practices'' (PDict []))))),
                (''supply_chain'', s),
                (''transparency'', transparency_score info cl n),
                (''certifications'', certification_score n)]"
    by blast
  have g_part: "dict_get pd' part (PDict []) = PDict d'"
    by (simp add: pd'_def dict_get_update)
  have g_other: "\<And>k dflt. k \<noteq> part \<Longrightarrow> dict_get pd' k dflt = dict_get pd k dflt"
    by (simp add: pd'_def dict_get_update)
  have apart: "''certifications'' \<noteq> part" "''supply_chain'' \<noteq> part" "''origin'' \<noteq> part"
    using part by auto
  have c': "component_scores_of pd' =
           Inr [(''environmental'',
                   environmental_score cl
                     (py_lower (py_str (dict_get pd' ''environmental_impact'' (PDict []))))
                     (py_lower (py_str (PDict pd')))),
                (''labor'',
                   labor_score cl (py_lower (py_str (dict_get pd' ''labor_practices'' (PDict []))))),
                (''supply_chain'', s),
                (''transparency'', transparency_score info cl n),
                (''certifications'', certification_score n)]"
    using component_scores_of_InrI [of pd' cl s info n] cl s info n apart
    by (simp add: g_other)
  have inner: "mentions needle (PDict d')" if "plain needle" "mentions needle (PDict d)" for needle
    using mentions_update [OF that(1) _ that(2), of flag v] new by (simp add: d'_def)
  have whole: "sublist needle (py_lower (py_str (PDict pd')))"
    if p: "plain needle" and h: "sublist needle (py_lower (py_str (PDict pd)))" for needle
  proof -
    have old: "mentions needle (PDict d')"
      if m: "map_of pd part = Some x" and hx: "mentions needle x" for x
    proof -
      from m d have "x = PDict d" by (simp add: dict_get_def)
      with hx inner [OF p] show ?thesis by simp
    qed
    from h have "mentions needle (PDict pd)" by (simp add: mentions_def py_str_def)
    from mentions_update [OF p old this]
    show ?thesis by (simp add: mentions_def py_str_def pd'_def)
  qed
  have part_text: "sublist needle (py_lower (py_str (dict_get pd' k (PDict []))))"
    if p: "plain needle" and h: "sublist needle (py_lower (py_str (dict_get pd k (PDict []))))"
    for needle k
  proof (cases "k = part")
    case True
    with h d have "mentions needle (PDict d)" by (simp add: mentions_def py_str_def)
    from inner [OF p this] True g_part show ?thesis by (simp add: mentions_def py_str_def)
  next
    case False
    with h g_other show ?thesis by simp
  qed
  have "scores_le scores
          [(''environmental'',
                   environmental_score cl
                     (py_lower (py_str (dict_get pd' ''environmental_impact'' (PDict []))))
                     (py_lower (py_str (PDict pd')))),
                (''labor'',
                   labor_score cl (py_lower (py_str (dict_get pd' ''labor_practices'' (PDict []))))),
                (''supply_chain'', s),
                (''transparency'', transparency_score info cl n),
                (''certifications'', certification_score n)]"
    unfolding scores scores_le_def
    using environmental_score_mono [OF subset_refl
            part_text [OF needles_plain(2), of "''environmental_impact''"]
            part_text [OF needles_plain(3), of "''environmental_impact''"]
            whole [OF needles_plain(1)]]
      labor_score_mono [OF subset_refl
            part_text [OF needles_plain(4), of "''labor_practices''"]
            part_text [OF needles_plain(5), of "''labor_practices''"]]
    by simp
  with c' pd' show ?thesis by simp
qed

text \<open>
  C5. Extending a product with a positive signal never lowers a component score: whenever
  the operon returns for a product, it also returns for the product with one more
  certification appended to its certifications list (any certification, so in particular
  organic, fair trade, SA8000 or B-Corp), for the product with \<open>public_reporting\<close> set
  where it was absent or false, and for the product with a new flag entered in
  \<open>environmental_impact\<close> or \<open>labor_practices\<close>; and each of the five component scores
  returned is then at least what it was.
\<close>

theorem positive_signal_never_lowers_a_component:
  assumes "score_ethical_factors pd uv w = Inr r"
  shows "(dict_get pd ''certifications'' (PList []) = PList cs \<longrightarrow>
            (\<exists>r'. score_ethical_factors (add_certification c pd) uv w = Inr r'
                  \<and> scores_le (component_scores r) (component_scores r')))
       \<and> (dict_get pd ''supply_chain'' (PDict []) = PDict info
          \<and> dict_get info ''public_reporting'' (PBool False) = PBool False \<longrightarrow>
            (\<exists>r'. score_ethical_factors (set_public_reporting pd) uv w = Inr r'
                  \<and> scores_le (component_scores r) (component_scores r')))
       \<and> ((part = ''environmental_impact'' \<or> part = ''labor_practices'')
          \<and> dict_get pd part (PDict []) = PDict flags \<and> map_of flags flag = None \<longrightarrow>
            (\<exists>r'. score_ethical_factors (add_flag part flag v pd) uv w = Inr r'
                  \<and> scores_le (component_scores r) (component_scores r')))"
proof -
  from score_ethical_factors_InrD [OF assms] obtain scores where
    sc: "component_scores_of pd = Inr scores" by blast
  have cert: "\<exists>r'. score_ethical_factors (add_certification c pd) uv w = Inr r'
                  \<and> scores_le (component_scores r) (component_scores r')"
    if "dict_get pd ''certifications'' (PList []) = PList cs"
  proof -
    from add_certification_components [OF sc that, of c] obtain scores' where
      "component_scores_of (add_certification c pd) = Inr scores'" "scores_le scores scores'"
      by blast
    with score_of_components [OF assms sc] show ?thesis by blast
  qed
  have reporting: "\<exists>r'. score_ethical_factors (set_public_reporting pd) uv w = Inr r'
                  \<and> scores_le (component_scores r) (component_scores r')"
    if "dict_get pd ''supply_chain'' (PDict []) = PDict info"
      and "dict_get info ''public_reporting'' (PBool False) = PBool False"
  proof -
    from set_public_reporting_components [OF sc that] obtain scores' where
      "component_scores_of (set_public_reporting pd) = Inr scores'" "scores_le scores scores'"
      by blast
    with score_of_components [OF assms sc] show ?thesis by blast
  qed
  have entry: "\<exists>r'. score_ethical_factors (add_flag part flag v pd) uv w = Inr r'
                  \<and> scores_le (component_scores r) (component_scores r')"
    if "part = ''environmental_impact'' \<or> part = ''labor_practices''"
      and "dict_get pd part (PDict []) = PDict flags" and "map_of flags flag = None"
  proof -
    from add_flag_components [OF sc that, of v] obtain scores' where
      "component_scores_of (add_flag part flag v pd) = Inr scores'" "scores_le scores scores'"
      by blast
    with score_of_components [OF assms sc] show ?thesis by blast
  qed
  from cert reporting entry show ?thesis by blast
qed

theorem positive_signal_never_lowers_a_component_witness:
  "score_ethical_factors scenario_b_product scenario_b_values None = Inr scenario_b_result
   \<and> component_scores scenario_b_result =
       [(''environmental'', 5), (''labor'', 5), (''supply_chain'', 2),
        (''transparency'', 5), (''certifications'', 0)]
   \<and> map (\<lambda>p. component_scores (projr (score_ethical_factors p scenario_b_values None)))
        [add_certification ''Organic'' scenario_b_product,
         set_public_reporting scenario_b_product,
         add_flag ''labor_practices'' ''living wage'' (PBool True) scenario_b_product] =
       [[(''environmental'', 65 / 10), (''labor'', 5), (''supply_chain'', 2),
         (''transparency'', 5), (''certifications'', 15 / 10)],
        [(''environmental'', 5), (''labor'', 5), (''supply_chain'', 2),
         (''transparency'', 65 / 10), (''certifications'', 0)],
        [(''environmental'', 5), (''labor'', 65 / 10), (''supply_chain'', 2),
         (''transparency'', 5), (''certifications'', 0)]]
   \<and> list_all (\<lambda>p. scores_le (component_scores scenario_b_result)
                     (component_scores (projr (score_ethical_factors p scenario_b_values None))))
        [add_certification ''Organic'' scenario_b_product,
         set_public_reporting scenario_b_product,
         add_flag ''labor_practices'' ''living wage'' (PBool True) scenario_b_product]"
proof -
  have runs: "map (\<lambda>p. component_scores (projr (score_ethical_factors p scenario_b_values None)))
        [add_certification ''Organic'' scenario_b_product,
         set_public_reporting scenario_b_product,
         add_flag ''labor_practices'' ''living wage'' (PBool True) scenario_b_product] =
       [[(''environmental'', 65 / 10), (''labor'', 5), (''supply_chain'', 2),
         (''transparency'', 5), (''certifications'', 15 / 10)],
        [(''environmental'', 5), (''labor'', 5), (''supply_chain'', 2),
         (''transparency'', 65 / 10), (''certifications'', 0)],
        [(''environmental'', 5), (''labor'', 65 / 10), (''supply_chain'', 2),
         (''transparency'', 5), (''certifications'', 0)]]"
    by code_simp
  have certs: "dict_get scenario_b_product ''certifications'' (PList []) = PList []"
    by (simp add: scenario_b_product_def dict_get_def)
  have chain: "dict_get scenario_b_product ''supply_chain'' (PDict []) =
                 PDict [(''transparency_score'', PInt 2)]"
    by (simp add: scenario_b_product_def dict_get_def)
  have unset: "dict_get [(''transparency_score'', PInt 2)] ''public_reporting'' (PBool False) =
                 PBool False"
    by (simp add: dict_get_def)
  have labor: "dict_get scenario_b_product ''labor_practices'' (PDict []) = PDict []"
    by (simp add: scenario_b_product_def dict_get_def)
  from positive_signal_never_lowers_a_component [OF scenario_b_run,
         of "[]" "''Organic''" "[(''transparency_score'', PInt 2)]" "''labor_practices''" "[]"
            "''living wage''" "PBool True"]
    certs chain unset labor
  have "list_all (\<lambda>p. scores_le (component_scores scenario_b_result)
                     (component_scores (projr (score_ethical_factors p scenario_b_values None))))
        [add_certification ''Organic'' scenario_b_product,
         set_public_reporting scenario_b_product,
         add_flag ''labor_practices'' ''living wage'' (PBool True) scenario_b_product]"
    by auto
  with scenario_b_run runs show ?thesis
    by (simp add: scenario_b_result_def)
qed

end
